theory Spec2Isabelle
  imports Complex_Main "HOL-Library.Multiset" "HOL-Library.Sublist"
begin

section \<open>Order notification worker: data model\<close>

text \<open>
  The repository holds four revisions of the same worker module. They are told apart by
  a suffix on every definition:
  \<^item> \<open>_A\<close>: the first module of \<open>src/unnamed/part_000\<close> (lines 1 to 305);
  \<^item> \<open>_B\<close>: the second module of \<open>src/unnamed/part_000\<close> (lines 306 to 620);
  \<^item> \<open>_C\<close>: \<open>src/unnamed/part_001\<close>;
  \<^item> \<open>_W\<close>: \<open>src/src/worker.ts\<close>.
  A definition with two letters (\<open>_AB\<close>, \<open>_CW\<close>) embeds a function whose text is the
  same in both revisions.

  A JavaScript \<open>number\<close> that holds an amount is an \<open>int\<close>; where the arithmetic of the
  source can leave the finite numbers (\<open>Math.max()\<close> of no argument is \<open>-Infinity\<close>, a
  division by zero is \<open>NaN\<close> or an infinity, a sum or a product may overflow) the result
  is an \<open>int option\<close> and \<open>None\<close> stands for every non-finite number. The sums and
  products of \<open>calculateOrderTotal\<close> are rounded as the source's binary64 numbers are
  (\<open>to_number\<close>); the time arithmetic of the processor is on \<open>real\<close> values rounded in
  the same way (\<open>round_double\<close>). The flavor arithmetic of \<open>calculateItemPrice\<close> is on
  exact integers. A field that may be \<open>null\<close> or \<open>undefined\<close> is an \<open>option\<close>; the
  quantities and the flavor prices are numbers, as the interfaces of the source declare
  them. Text is a list of bytes (UTF-8).
\<close>

record Flavor =
  flavor_name :: string
  flavor_price :: int

record Complement =
  comp_quantity :: int
  comp_name :: string
  comp_price :: "int option"

record OrderItem =
  quantity :: int
  item_name :: string
  price :: "int option"
  item_notes :: "string option"
  complements :: "Complement list option"
  orderItemComplements :: "Complement list option"
  pizzaFlavors :: "Flavor list option"
  orderItemPizzaFlavors :: "Flavor list option"
  pizzaPricingType :: "string option"
  pizzaConfig_pricingType :: "string option"

record OrderData =
  code :: int
  customerName :: string
  customerPhone :: string
  order_notes :: "string option"
  paymentMethod :: string
  change :: "int option"
  status :: string
  deliveryMethodCode :: "string option"
  items :: "OrderItem list"

datatype EventType = ORDER_CREATED | ORDER_STATUS_UPDATED

section \<open>JavaScript operators used by the source\<close>

text \<open>\<open>a || b\<close> on two values that are arrays or absent: an array, even an empty one, is truthy.\<close>

definition or_array :: "'a list option \<Rightarrow> 'a list option \<Rightarrow> 'a list option" where
  "or_array a b = (case a of Some xs \<Rightarrow> Some xs | None \<Rightarrow> b)"

text \<open>\<open>xs && xs.length > 0\<close>, also written \<open>xs?.length\<close>, on an array that may be absent.\<close>

definition has_length :: "'a list option \<Rightarrow> bool" where
  "has_length xs = (case xs of Some ys \<Rightarrow> length ys > 0 | None \<Rightarrow> False)"

text \<open>Truthiness of a string that may be absent: the empty string is falsy.\<close>

definition truthy_str :: "string option \<Rightarrow> bool" where
  "truthy_str s = (case s of Some t \<Rightarrow> t \<noteq> [] | None \<Rightarrow> False)"

text \<open>\<open>a || b || "average"\<close> on strings that may be absent.\<close>

definition or_str :: "string option \<Rightarrow> string option \<Rightarrow> string \<Rightarrow> string" where
  "or_str a b d = (if truthy_str a then the a else if truthy_str b then the b else d)"

text \<open>\<open>x ?? 0\<close>.\<close>

definition nullish0 :: "int option \<Rightarrow> int" where
  "nullish0 x = (case x of Some v \<Rightarrow> v | None \<Rightarrow> 0)"

text \<open>\<open>Math.max(...xs)\<close>: \<open>-Infinity\<close> when there is no argument.\<close>

fun math_max :: "int list \<Rightarrow> int option" where
  "math_max [] = None"
| "math_max (x # xs) = Some (foldl max x xs)"

text \<open>
  \<open>Math.round(s / n)\<close> for integers \<open>s\<close> and \<open>n\<close>: \<open>Math.round\<close> is the floor of its argument
  plus one half; \<open>s / 0\<close> is not finite.
\<close>

definition math_round_div :: "int \<Rightarrow> int \<Rightarrow> int option" where
  "math_round_div s n = (if n = 0 then None else Some ((2 * s + n) div (2 * n)))"

text \<open>
  Binary64 rounding. A finite double is an integer of at most 53 significant bits times a
  power of two. \<open>bit_length n\<close> is the number of binary digits of a positive \<open>n\<close>.
\<close>

function bit_length :: "int \<Rightarrow> nat" where
  "bit_length n = (if n \<le> 0 then 0 else Suc (bit_length (n div 2)))"
  by pat_completeness auto
termination
  by (relation "measure nat") auto

text \<open>
  The integer of at most 53 significant bits nearest to \<open>i\<close>, a tie going to the even
  significand: the exact integer result of a sum or a product, as it is stored.
\<close>

definition round53 :: "int \<Rightarrow> int" where
  "round53 i =
     (let n = \<bar>i\<bar>; u = 2 ^ (bit_length n - 53); q = n div u; r = n mod u;
          q' = (if 2 * r < u then q else if 2 * r > u then q + 1 else if even q then q else q + 1)
      in sgn i * (q' * u))"

text \<open>What is past the largest double rounds to an infinity.\<close>

definition to_number :: "int \<Rightarrow> int option" where
  "to_number i = (let r = round53 i in if \<bar>r\<bar> \<ge> 2 ^ 1024 then None else Some r)"

text \<open>
  \<open>a + b\<close> and \<open>a * b\<close> on integer-valued numbers: the exact result, rounded. A non-finite
  operand gives a non-finite result.
\<close>

definition num_add :: "int option \<Rightarrow> int option \<Rightarrow> int option" where
  "num_add a b =
     (case a of None \<Rightarrow> None | Some x \<Rightarrow> (case b of None \<Rightarrow> None | Some y \<Rightarrow> to_number (x + y)))"

definition num_mul :: "int option \<Rightarrow> int option \<Rightarrow> int option" where
  "num_mul a b =
     (case a of None \<Rightarrow> None | Some x \<Rightarrow> (case b of None \<Rightarrow> None | Some y \<Rightarrow> to_number (x * y)))"

text \<open>
  The same rounding on a real number \<open>z\<close>, which may have a fraction: the spacing \<open>u\<close> of
  the doubles around \<open>z\<close> (\<open>2^-1074\<close> at the least), and the multiple of \<open>u\<close> nearest to
  \<open>z\<close>, a tie going to the even multiple.
\<close>

definition rne :: "real \<Rightarrow> int" where
  "rne x =
     (let f = \<lfloor>x\<rfloor>; d = x - of_int f
      in if d < 1 / 2 then f else if d > 1 / 2 then f + 1 else if even f then f else f + 1)"

definition round_double :: "real \<Rightarrow> real option" where
  "round_double z =
     (let u = 2 ^ (bit_length \<lfloor>\<bar>z\<bar> * 2 ^ 1074\<rfloor> - 53) / 2 ^ 1074;
          r = of_int (rne (\<bar>z\<bar> / u)) * u
      in if r \<ge> 2 ^ 1024 then None else Some (sgn z * r))"

definition js_add :: "real option \<Rightarrow> real option \<Rightarrow> real option" where
  "js_add a b =
     (case a of None \<Rightarrow> None | Some x \<Rightarrow> (case b of None \<Rightarrow> None | Some y \<Rightarrow> round_double (x + y)))"

definition js_mul :: "real option \<Rightarrow> real option \<Rightarrow> real option" where
  "js_mul a b =
     (case a of None \<Rightarrow> None | Some x \<Rightarrow> (case b of None \<Rightarrow> None | Some y \<Rightarrow> round_double (x * y)))"

section \<open>Pricing\<close>

text \<open>
  \<open>calculateItemPrice\<close> of \<open>worker.ts\<close> (lines 63 to 73) and of \<open>part_001\<close> (lines 46 to 59):
  \<open>sum\<close>, then \<open>max\<close>, and the average for every other pricing type.
\<close>

definition calculateItemPrice_CW :: "OrderItem \<Rightarrow> int option" where
  "calculateItemPrice_CW item =
     (let pizzaFlavors = or_array (pizzaFlavors item) (orderItemPizzaFlavors item) in
      if has_length pizzaFlavors then
        (let prices = map flavor_price (the pizzaFlavors);
             type = or_str (pizzaPricingType item) (pizzaConfig_pricingType item) ''average''
         in if type = ''sum'' then Some (foldl (+) 0 prices)
            else if type = ''max'' then math_max prices
            else math_round_div (foldl (+) 0 prices) (int (length prices)))
      else Some (nullish0 (price item)))"

text \<open>
  \<open>calculateItemPrice\<close> of both modules of \<open>part_000\<close> (lines 38 to 56 and 351 to 368):
  an \<open>if\<close>/\<open>else if\<close> chain on \<open>sum\<close>, \<open>average\<close> and \<open>max\<close> with no final \<open>else\<close>, so that
  any other pricing type leaves the block and reaches \<open>return item.price ?? 0\<close>.
\<close>

definition calculateItemPrice_AB :: "OrderItem \<Rightarrow> int option" where
  "calculateItemPrice_AB item =
     (let pizzaFlavors = or_array (pizzaFlavors item) (orderItemPizzaFlavors item) in
      if has_length pizzaFlavors then
        (let flavorPrices = map flavor_price (the pizzaFlavors);
             pricingType = or_str (pizzaPricingType item) (pizzaConfig_pricingType item) ''average''
         in if pricingType = ''sum'' then Some (foldl (+) 0 flavorPrices)
            else if pricingType = ''average'' then
              math_round_div (foldl (+) 0 flavorPrices) (int (length flavorPrices))
            else if pricingType = ''max'' then math_max flavorPrices
            else Some (nullish0 (price item)))
      else Some (nullish0 (price item)))"

text \<open>
  The complements of a line as \<open>calculateOrderTotal\<close> reads them:
  \<open>item.complements || item.orderItemComplements || []\<close> in \<open>worker.ts\<close> and \<open>part_001\<close>,
  and the same two fields under an \<open>Array.isArray\<close> test in \<open>part_000\<close>.
\<close>

definition complements_of :: "OrderItem \<Rightarrow> Complement list" where
  "complements_of item =
     (case or_array (complements item) (orderItemComplements item) of
        Some cs \<Rightarrow> cs | None \<Rightarrow> [])"

text \<open>\<open>complements.reduce((sum, c) => sum + (c.price ?? 0) * c.quantity, 0)\<close>.\<close>

definition complementsReduce :: "Complement list \<Rightarrow> int option" where
  "complementsReduce cs =
     foldl (\<lambda>sum c. num_add sum (num_mul (Some (nullish0 (comp_price c))) (Some (comp_quantity c))))
       (Some 0) cs"

text \<open>
  \<open>calculateOrderTotal\<close>: a \<open>reduce\<close> over the lines, from 0. The function is the same in the
  four revisions up to the \<open>calculateItemPrice\<close> it calls, which is its first argument here.
\<close>

definition orderTotalStep :: "(OrderItem \<Rightarrow> int option) \<Rightarrow> int option \<Rightarrow> OrderItem \<Rightarrow> int option" where
  "orderTotalStep calcItem acc item =
     (let itemPrice = calcItem item;
          complementsTotal = complementsReduce (complements_of item)
      in num_add acc (num_mul (num_add itemPrice complementsTotal) (Some (quantity item))))"

definition calculateOrderTotal :: "(OrderItem \<Rightarrow> int option) \<Rightarrow> OrderData \<Rightarrow> int option" where
  "calculateOrderTotal calcItem order = foldl (orderTotalStep calcItem) (Some 0) (items order)"

definition calculateOrderTotal_CW :: "OrderData \<Rightarrow> int option" where
  "calculateOrderTotal_CW = calculateOrderTotal calculateItemPrice_CW"

definition calculateOrderTotal_AB :: "OrderData \<Rightarrow> int option" where
  "calculateOrderTotal_AB = calculateOrderTotal calculateItemPrice_AB"

text \<open>
  For the statement that the order of complements does not matter: the order in which
  every complement list of every line is rearranged by \<open>f\<close>.
\<close>

definition rearrangeComplements :: "(Complement list \<Rightarrow> Complement list) \<Rightarrow> OrderData \<Rightarrow> OrderData" where
  "rearrangeComplements f order =
     order\<lparr>items :=
       map (\<lambda>item. item\<lparr>complements := map_option f (complements item),
                          orderItemComplements := map_option f (orderItemComplements item)\<rparr>)
         (items order)\<rparr>"

text \<open>The sum the specification gives for a line, on the unit price \<open>p\<close> of the line.\<close>

definition lineTotal :: "int \<Rightarrow> OrderItem \<Rightarrow> int" where
  "lineTotal p item =
     (p + (\<Sum>c\<leftarrow>complements_of item. nullish0 (comp_price c) * comp_quantity c)) * quantity item"

text \<open>
  A bound on every intermediate result of the total of a line whose unit price is \<open>p\<close>, and
  the orders whose lines stay within \<open>2^53\<close> altogether, where every integer is a double.
\<close>

definition lineMagnitude :: "int \<Rightarrow> OrderItem \<Rightarrow> int" where
  "lineMagnitude p item =
     (\<bar>p\<bar> + (\<Sum>c\<leftarrow>complements_of item. \<bar>nullish0 (comp_price c) * comp_quantity c\<bar>))
       * max 1 \<bar>quantity item\<bar>"

definition within_exact_range :: "(OrderItem \<Rightarrow> int option) \<Rightarrow> OrderData \<Rightarrow> bool" where
  "within_exact_range calcItem order \<longleftrightarrow>
     (\<Sum>item\<leftarrow>items order. lineMagnitude (the (calcItem item)) item) \<le> 2 ^ 53"

section \<open>Text\<close>

text \<open>
  \<open>String(n)\<close> for an integer \<open>n\<close>: decimal digits, with a minus sign below zero (the
  exponent notation JavaScript switches to from \<open>10^21\<close> on is outside the model).
\<close>

function digits_of_nat :: "nat \<Rightarrow> string" where
  "digits_of_nat n =
     (if n < 10 then [char_of (48 + n)]
      else digits_of_nat (n div 10) @ [char_of (48 + n mod 10)])"
  by pat_completeness auto
termination
  by (relation "measure (\<lambda>n. n)") auto

definition number_to_string :: "int \<Rightarrow> string" where
  "number_to_string i = (if i < 0 then ''-'' @ digits_of_nat (nat (- i)) else digits_of_nat (nat i))"

text \<open>An ASCII capital letter becomes the small one; every other byte is left as it is.\<close>

definition to_lower_char :: "char \<Rightarrow> char" where
  "to_lower_char c =
     (let n = (of_char c :: nat) in if 65 \<le> n \<and> n \<le> 90 then char_of (n + 32) else c)"

text \<open>
  \<open>s.toLowerCase()\<close>. Besides the ASCII letters, two characters outside ASCII have a
  lower-case form with an ASCII letter in it: the Kelvin sign U+212A (bytes E2 84 AA)
  becomes \<open>k\<close>, and the dotted capital I U+0130 (bytes C4 B0) becomes \<open>i\<close> followed by the
  combining dot U+0307 (bytes CC 87). The other letters outside ASCII are left as they
  are: their lower-case forms are outside ASCII too, so that no ASCII byte of the result
  depends on them.
\<close>

fun toLowerCase :: "string \<Rightarrow> string" where
  "toLowerCase (a # b # c # s) =
     (if a = CHR 0xE2 \<and> b = CHR 0x84 \<and> c = CHR 0xAA then CHR ''k'' # toLowerCase s
      else if a = CHR 0xC4 \<and> b = CHR 0xB0 then [CHR ''i'', CHR 0xCC, CHR 0x87] @ toLowerCase (c # s)
      else to_lower_char a # toLowerCase (b # c # s))"
| "toLowerCase [a, b] =
     (if a = CHR 0xC4 \<and> b = CHR 0xB0 then [CHR ''i'', CHR 0xCC, CHR 0x87]
      else [to_lower_char a, to_lower_char b])"
| "toLowerCase [a] = [to_lower_char a]"
| "toLowerCase [] = []"

text \<open>
  The case folding of a regular expression with the \<open>i\<close> flag and without the \<open>u\<close> flag, as
  far as ASCII patterns go: a character outside ASCII never matches an ASCII letter.
\<close>

definition fold_ascii_case :: "string \<Rightarrow> string" where
  "fold_ascii_case s = map to_lower_char s"

text \<open>\<open>s.includes(t)\<close>: \<open>t\<close> occurs in \<open>s\<close> as a contiguous run.\<close>

fun includes_str :: "string \<Rightarrow> string \<Rightarrow> bool" where
  "includes_str [] t = (t = [])"
| "includes_str (c # s) t = (prefix t (c # s) \<or> includes_str s t)"

text \<open>The line break and the characters outside ASCII that the templates use, as UTF-8.\<close>

definition nl :: string where "nl = [CHR 0x0A]"
definition degree_sign :: string where "degree_sign = [CHR 0xC2, CHR 0xB0]"
definition a_acute :: string where "a_acute = [CHR 0xC3, CHR 0xA1]"
definition a_tilde :: string where "a_tilde = [CHR 0xC3, CHR 0xA3]"
definition c_cedilla :: string where "c_cedilla = [CHR 0xC3, CHR 0xA7]"
definition e_acute :: string where "e_acute = [CHR 0xC3, CHR 0xA9]"
definition e_circumflex :: string where "e_circumflex = [CHR 0xC3, CHR 0xAA]"
definition o_acute :: string where "o_acute = [CHR 0xC3, CHR 0xB3]"
definition o_circumflex :: string where "o_circumflex = [CHR 0xC3, CHR 0xB4]"
definition glyph_package :: string where "glyph_package = [CHR 0xF0, CHR 0x9F, CHR 0x93, CHR 0xA6]"
definition glyph_banknote :: string where "glyph_banknote = [CHR 0xF0, CHR 0x9F, CHR 0x92, CHR 0xB5]"
definition glyph_card :: string where "glyph_card = [CHR 0xF0, CHR 0x9F, CHR 0x92, CHR 0xB3]"
definition glyph_scooter :: string where "glyph_scooter = [CHR 0xF0, CHR 0x9F, CHR 0x9B, CHR 0xB5]"
definition glyph_wink :: string where "glyph_wink = [CHR 0xF0, CHR 0x9F, CHR 0x98, CHR 0x89]"
definition glyph_party :: string where "glyph_party = [CHR 0xF0, CHR 0x9F, CHR 0xA5, CHR 0xB3]"

section \<open>Message rendering\<close>

text \<open>The two fixed texts of a status update, the same in the four revisions.\<close>

definition msg_in_preparation :: string where
  "msg_in_preparation =
     ''Agora vai! Seu pedido j'' @ a_acute @ '' est'' @ a_acute @ '' *em produ'' @ c_cedilla
       @ a_tilde @ ''o* '' @ glyph_party"

definition msg_completed :: string where
  "msg_completed =
     ''T'' @ o_circumflex @ '' chegando! Seu pedido j'' @ a_acute @ '' est'' @ a_acute
       @ '' na rota de *entrega* '' @ glyph_scooter"

definition header :: "int \<Rightarrow> string" where
  "header c = ''Pedido *n'' @ degree_sign @ '' '' @ number_to_string c @ ''*'' @ nl @ nl @ ''*Itens:*'' @ nl"

text \<open>\<open>q > 1 ? `${q}x ` : ""\<close>, used for lines and for complements.\<close>

definition quantityPrefix :: "int \<Rightarrow> string" where
  "quantityPrefix q = (if q > 1 then number_to_string q @ ''x '' else [])"

text \<open>
  \<open>formatOrderMessage\<close> of \<open>part_000\<close> (lines 77 to 161 and 389 to 473). The currency
  formatting \<open>(n / 100).toLocaleString("pt-BR", ...)\<close> belongs to the runtime's locale data:
  it is the parameter \<open>fmt\<close>, applied to the amount in minor units. Every \<open>message +=\<close> of
  the source is one step on the accumulated text; the \<open>for\<close> loops are folds.
\<close>

definition flavorStep_AB :: "string \<Rightarrow> string \<Rightarrow> Flavor \<Rightarrow> string" where
  "flavorStep_AB fraction message flavor =
     message @ nl @ ''           ```'' @ fraction @ '' '' @ flavor_name flavor @ ''```''"

definition complementStep_AB :: "string \<Rightarrow> Complement \<Rightarrow> string" where
  "complementStep_AB message complement =
     (let complementQuantity = quantityPrefix (comp_quantity complement)
      in message @ nl @ ''           ```'' @ complementQuantity @ comp_name complement @ ''```'')"

definition itemStep_AB :: "string \<Rightarrow> OrderItem \<Rightarrow> string" where
  "itemStep_AB message0 item =
     (let itemQuantity = quantityPrefix (quantity item);
          message1 = message0 @ glyph_package @ '' ```'' @ itemQuantity @ item_name item @ ''```'';
          pizzaFlavors = or_array (pizzaFlavors item) (orderItemPizzaFlavors item);
          message2 =
            (if has_length pizzaFlavors then
               (let fraction = ''1/'' @ number_to_string (int (length (the pizzaFlavors)))
                in foldl (flavorStep_AB fraction) (message1 @ nl @ ''     _Sabores_'') (the pizzaFlavors))
             else message1);
          message3 =
            (if has_length (orderItemComplements item) then
               foldl complementStep_AB (message2 @ nl @ ''     _Complementos_'')
                 (the (orderItemComplements item))
             else message2);
          message4 =
            (if truthy_str (item_notes item) then
               message3 @ nl @ nl @ ''*OBS:* '' @ the (item_notes item) @ nl
             else message3)
      in message4 @ nl)"

definition paymentText_AB :: "(int option \<Rightarrow> string) \<Rightarrow> OrderData \<Rightarrow> string" where
  "paymentText_AB fmt order =
     (if paymentMethod order = ''cash'' \<or> paymentMethod order = ''pix'' then glyph_banknote
      else glyph_card)
     @ '' '' @
     (if paymentMethod order = ''cash'' then
        (if (case change order of Some c \<Rightarrow> c \<noteq> 0 | None \<Rightarrow> False) then
           ''*Dinheiro (troco para '' @ fmt (change order) @ '')*''
         else ''*Dinheiro (n'' @ a_tilde @ ''o precisa de troco)*'')
      else if paymentMethod order = ''pix'' then ''*Pix*''
      else ''*Cart'' @ a_tilde @ ''o*'')"

definition deliveryText_AB :: "OrderData \<Rightarrow> string" where
  "deliveryText_AB order =
     glyph_scooter @ '' '' @
     (if deliveryMethodCode order = Some ''delivery'' then ''*Delivery*''
      else if deliveryMethodCode order = Some ''pickup'' then ''*Retirada no local*''
      else ''*Consumo no local*'')"

definition closing_AB :: string where
  "closing_AB =
     ''Obrigado pela prefer'' @ e_circumflex @ ''ncia, se precisar de algo '' @ e_acute
       @ '' s'' @ o_acute @ '' chamar! '' @ glyph_wink"

definition formatOrderMessage_AB :: "(int option \<Rightarrow> string) \<Rightarrow> OrderData \<Rightarrow> EventType \<Rightarrow> string" where
  "formatOrderMessage_AB fmt order type =
     (let total = calculateOrderTotal_AB order;
          totalFormatted = fmt total
      in case type of
           ORDER_CREATED \<Rightarrow>
             (let message1 = foldl itemStep_AB (header (code order)) (items order);
                  message2 =
                    (if truthy_str (order_notes order) then
                       message1 @ nl @ ''*OBS:* '' @ the (order_notes order)
                     else message1)
              in message2 @ (if truthy_str (order_notes order) then nl else []) @ nl
                   @ paymentText_AB fmt order @ nl
                   @ deliveryText_AB order @ nl @ nl
                   @ ''Total *'' @ totalFormatted @ ''*'' @ nl @ nl
                   @ closing_AB)
         | ORDER_STATUS_UPDATED \<Rightarrow>
             (if status order = ''in_preparation'' then msg_in_preparation
              else if status order = ''completed'' then msg_completed
              else []))"

text \<open>\<open>formatOrderMessage\<close> of \<open>part_001\<close> (lines 75 to 132): no payment and no delivery line.\<close>

definition closing_CW :: string where
  "closing_CW = ''Obrigado pela prefer'' @ e_circumflex @ ''ncia! '' @ glyph_wink"

definition flavorStep_C :: "string \<Rightarrow> string \<Rightarrow> Flavor \<Rightarrow> string" where
  "flavorStep_C fraction message f =
     message @ ''           ```'' @ fraction @ '' '' @ flavor_name f @ ''```'' @ nl"

definition complementStep_C :: "string \<Rightarrow> Complement \<Rightarrow> string" where
  "complementStep_C message c =
     (let cQty = quantityPrefix (comp_quantity c)
      in message @ ''           ```'' @ cQty @ comp_name c @ ''```'' @ nl)"

definition itemStep_C :: "string \<Rightarrow> OrderItem \<Rightarrow> string" where
  "itemStep_C message0 item =
     (let qty = quantityPrefix (quantity item);
          message1 = message0 @ glyph_package @ '' ```'' @ qty @ item_name item @ ''```'' @ nl;
          flavors = or_array (pizzaFlavors item) (orderItemPizzaFlavors item);
          message2 =
            (if has_length flavors then
               (let fraction = ''1/'' @ number_to_string (int (length (the flavors)))
                in foldl (flavorStep_C fraction) (message1 @ ''     _Sabores_'' @ nl) (the flavors))
             else message1);
          message3 =
            (if has_length (orderItemComplements item) then
               foldl complementStep_C (message2 @ ''     _Complementos_'' @ nl)
                 (the (orderItemComplements item))
             else message2);
          message4 =
            (if truthy_str (item_notes item) then
               message3 @ nl @ ''*OBS:* '' @ the (item_notes item) @ nl
             else message3)
      in message4 @ nl)"

definition formatOrderMessage_C :: "(int option \<Rightarrow> string) \<Rightarrow> OrderData \<Rightarrow> EventType \<Rightarrow> string" where
  "formatOrderMessage_C fmt order type =
     (let total = calculateOrderTotal_CW order;
          totalFormatted = fmt total
      in if type = ORDER_STATUS_UPDATED then
           (if status order = ''in_preparation'' then msg_in_preparation
            else if status order = ''completed'' then msg_completed
            else [])
         else
           (let message1 = foldl itemStep_C (header (code order)) (items order);
                message2 =
                  (if truthy_str (order_notes order) then
                     message1 @ ''*OBS:* '' @ the (order_notes order) @ nl @ nl
                   else message1)
            in message2 @ ''Total *'' @ totalFormatted @ ''*'' @ nl @ nl @ closing_CW))"

text \<open>
  \<open>formatOrderMessage\<close> of \<open>worker.ts\<close> (lines 87 to 119): the lines with their notes, then
  the total; no flavors, complements, order notes, payment or delivery.
\<close>

definition itemStep_W :: "string \<Rightarrow> OrderItem \<Rightarrow> string" where
  "itemStep_W msg0 item =
     (let q = quantityPrefix (quantity item);
          msg1 = msg0 @ glyph_package @ '' ```'' @ q @ item_name item @ ''```'' @ nl;
          msg2 =
            (if truthy_str (item_notes item) then msg1 @ ''*OBS:* '' @ the (item_notes item) @ nl
             else msg1)
      in msg2 @ nl)"

definition formatOrderMessage_W :: "(int option \<Rightarrow> string) \<Rightarrow> OrderData \<Rightarrow> EventType \<Rightarrow> string" where
  "formatOrderMessage_W fmt order type =
     (if type = ORDER_STATUS_UPDATED then
        (if status order = ''in_preparation'' then msg_in_preparation
         else if status order = ''completed'' then msg_completed
         else [])
      else
        (let total = calculateOrderTotal_CW order;
             totalFormatted = fmt total;
             msg = foldl itemStep_W (header (code order)) (items order)
         in msg @ ''Total *'' @ totalFormatted @ ''*'' @ nl @ nl @ closing_CW))"

section \<open>Gateway errors and the transient-error test\<close>

text \<open>
  An error object as the source probes it: \<open>name\<close>, \<open>message\<close> (absent when it is not a
  string), \<open>code\<close>, a numeric \<open>status\<close> and the HTTP response that an axios error carries.
\<close>

record Response =
  resp_status :: int
  resp_data :: string

record JsError =
  err_name :: string
  err_message :: "string option"
  err_code :: "string option"
  err_status :: "int option"
  err_response :: "Response option"

text \<open>\<open>new Error(m)\<close>.\<close>

definition new_Error :: "string \<Rightarrow> JsError" where
  "new_Error m =
     \<lparr>err_name = ''Error'', err_message = Some m, err_code = None, err_status = None,
      err_response = None\<rparr>"

text \<open>\<open>error.response?.status\<close>.\<close>

definition response_status :: "JsError \<Rightarrow> int option" where
  "response_status e = map_option resp_status (err_response e)"

text \<open>\<open>${err.message}\<close> inside a template.\<close>

definition message_text :: "JsError \<Rightarrow> string" where
  "message_text e = (case err_message e of Some m \<Rightarrow> m | None \<Rightarrow> ''undefined'')"

text \<open>
  \<open>isTemporaryProviderError\<close>, one per revision. The parameter is the caught error, always
  an object here, so the \<open>if (!error) return false\<close> guard of three revisions is not a
  branch of the model.

  \<open>worker.ts\<close>, lines 134 to 139.
\<close>

definition isTemporaryProviderError_W :: "JsError \<Rightarrow> bool" where
  "isTemporaryProviderError_W err =
     (if err_code err \<in> {Some ''ECONNRESET'', Some ''ETIMEDOUT'', Some ''EPIPE''} then True
      else if (case response_status err of Some st \<Rightarrow> st \<ge> 500 | None \<Rightarrow> False) then True
      else False)"

text \<open>The message test of \<open>part_000\<close>: three \<open>includes\<close> on the lower-cased message.\<close>

definition message_markers_AB :: "JsError \<Rightarrow> bool" where
  "message_markers_AB error =
     (case err_message error of
        Some m \<Rightarrow>
          (let msg = toLowerCase m
           in includes_str msg ''timeout'' \<or> includes_str msg ''temporarily unavailable''
              \<or> includes_str msg ''network'')
      | None \<Rightarrow> False)"

text \<open>\<open>part_000\<close>, lines 197 to 216: only \<open>error.status\<close> is read.\<close>

definition isTemporaryProviderError_A :: "JsError \<Rightarrow> bool" where
  "isTemporaryProviderError_A error =
     (if err_name error = ''FetchError'' \<or> err_code error = Some ''ECONNRESET''
         \<or> err_code error = Some ''ETIMEDOUT'' then True
      else if (case err_status error of Some st \<Rightarrow> st \<ge> 500 | None \<Rightarrow> False) then True
      else if message_markers_AB error then True
      else False)"

text \<open>\<open>part_000\<close>, lines 510 to 530: \<open>error.status ?? error.response?.status\<close>.\<close>

definition isTemporaryProviderError_B :: "JsError \<Rightarrow> bool" where
  "isTemporaryProviderError_B error =
     (if err_name error = ''FetchError'' \<or> err_code error = Some ''ECONNRESET''
         \<or> err_code error = Some ''ETIMEDOUT'' then True
      else
        (let status = (case err_status error of Some st \<Rightarrow> Some st | None \<Rightarrow> response_status error)
         in if (case status of Some st \<Rightarrow> st \<ge> 500 | None \<Rightarrow> False) then True
            else if message_markers_AB error then True
            else False))"

text \<open>
  \<open>part_001\<close>, lines 158 to 166: the message is tested with the regular expression
  \<open>/timeout|network|temporarily/i\<close>, on the empty string when there is no message.
\<close>

definition isTemporaryProviderError_C :: "JsError \<Rightarrow> bool" where
  "isTemporaryProviderError_C error =
     (let status = (case err_status error of Some st \<Rightarrow> Some st | None \<Rightarrow> response_status error)
      in if (case status of Some st \<Rightarrow> st \<noteq> 0 \<and> st \<ge> 500 | None \<Rightarrow> False) then True
         else
           (err_code error \<in> {Some ''ECONNRESET'', Some ''ETIMEDOUT''}
            \<or> (let msg = fold_ascii_case (case err_message error of Some m \<Rightarrow> m | None \<Rightarrow> [])
                in includes_str msg ''timeout'' \<or> includes_str msg ''network''
                   \<or> includes_str msg ''temporarily'')))"

section \<open>Sending\<close>

text \<open>
  \<open>sendMessage\<close> posts the text; the gateway's answer is a parameter of the processor
  (\<open>None\<close>: the request succeeded, \<open>Some e\<close>: axios rejected with \<open>e\<close>). What follows is the
  error \<open>sendMessage\<close> throws for a rejected request.

  \<open>worker.ts\<close>, lines 121 to 132: the axios error itself.
\<close>

definition sendMessage_W :: "JsError \<Rightarrow> JsError" where
  "sendMessage_W error = error"

text \<open>\<open>part_000\<close>, lines 163 to 195: a new error without \<open>status\<close> when there is a response.\<close>

definition sendMessage_A :: "JsError \<Rightarrow> JsError" where
  "sendMessage_A error =
     (case err_response error of
        Some r \<Rightarrow>
          new_Error (''Evolution API error: '' @ number_to_string (resp_status r) @ '' - '' @ resp_data r)
      | None \<Rightarrow> error)"

text \<open>\<open>part_000\<close>, lines 475 to 508: a new error that carries the response status as \<open>status\<close>.\<close>

definition sendMessage_B :: "JsError \<Rightarrow> JsError" where
  "sendMessage_B error =
     (let status = response_status error;
          err = new_Error (''Failed to send message: '' @ message_text error)
      in err\<lparr>err_status := status\<rparr>)"

text \<open>\<open>part_001\<close>, lines 134 to 156.\<close>

definition sendMessage_C :: "JsError \<Rightarrow> JsError" where
  "sendMessage_C error =
     (let err = new_Error ''Failed to send message''
      in err\<lparr>err_status := response_status error\<rparr>)"

section \<open>The job processor\<close>

record OrderMessageJobData =
  job_type :: EventType
  job_order :: OrderData
  sequence :: int
  evolutionInstance :: string

text \<open>
  What one run of \<open>processOrderMessage\<close> does to the outside, in order: the job's log, its
  progress, its move to the delayed set (with the time given, a number) or to the failed
  set, and the two HTTP requests (the instance asked about; the instance, the number and
  the text posted).
\<close>

datatype Effect =
    Log string
  | UpdateProgress string
  | MoveToDelayed "real option"
  | MoveToFailed JsError string
  | HttpGet string
  | HttpPost string string string

datatype Outcome = Returned | Threw JsError

text \<open>
  The body of the answer to the connection-state request, as the source reads it through
  \<open>data?.instance.state\<close>: no body, a body without \<open>instance\<close>, or the state (which may be
  absent).
\<close>

datatype ConnectionData = NoData | NoInstance | InstanceState "string option"

definition type_text :: "EventType \<Rightarrow> string" where
  "type_text t = (case t of ORDER_CREATED \<Rightarrow> ''ORDER_CREATED'' | ORDER_STATUS_UPDATED \<Rightarrow> ''ORDER_STATUS_UPDATED'')"

text \<open>The \<open>TypeError\<close> of reading \<open>state\<close> of an undefined \<open>instance\<close>.\<close>

definition state_TypeError :: JsError where
  "state_TypeError =
     \<lparr>err_name = ''TypeError'',
      err_message = Some (''Cannot read properties of undefined (reading '' @ [CHR 0x27] @ ''state''
                           @ [CHR 0x27] @ '')''),
      err_code = None, err_status = None, err_response = None\<rparr>"

text \<open>
  \<open>worker.ts\<close>, lines 145 to 161: no readiness request. \<open>post\<close> is the gateway's answer to
  the send.
\<close>

definition processOrderMessage_W ::
  "(int option \<Rightarrow> string) \<Rightarrow> OrderMessageJobData \<Rightarrow> JsError option \<Rightarrow> Effect list \<times> Outcome" where
  "processOrderMessage_W fmt job post =
     (let order = job_order job; type = job_type job; instance = evolutionInstance job;
          log1 = Log (''Processando pedido '' @ number_to_string (code order) @ '' ('' @ type_text type @ '')'');
          message = formatOrderMessage_W fmt order type;
          send = HttpPost instance (customerPhone order) message
      in case post of
           None \<Rightarrow> ([log1, send, Log (''Mensagem enviada para '' @ customerPhone order)], Returned)
         | Some error \<Rightarrow>
             (let err = sendMessage_W error
              in if isTemporaryProviderError_W err then ([log1, send], Threw err)
                 else ([log1, send],
                       Threw (new_Error (''Falha permanente ao enviar mensagem: '' @ message_text err)))))"

text \<open>
  \<open>part_000\<close>, lines 218 to 271. \<open>get\<close> is the gateway's answer to the connection-state
  request, \<open>random\<close> the value of \<open>Math.random()\<close> and \<open>now\<close> that of \<open>Date.now()\<close>.
\<close>

definition startLog_AB :: "OrderMessageJobData \<Rightarrow> Effect" where
  "startLog_AB job =
     Log (''Starting processing for order '' @ number_to_string (code (job_order job)) @ '' of type ''
          @ type_text (job_type job) @ '' and sequence '' @ number_to_string (sequence job))"

definition notReadyLog_AB :: "OrderMessageJobData \<Rightarrow> Effect" where
  "notReadyLog_AB job =
     Log (''Evolution instance '' @ evolutionInstance job @ '' not ready, delaying job (order ''
          @ number_to_string (code (job_order job)) @ '').'')"

definition processOrderMessage_A ::
  "(int option \<Rightarrow> string) \<Rightarrow> OrderMessageJobData \<Rightarrow> JsError + ConnectionData \<Rightarrow> JsError option
     \<Rightarrow> real \<Rightarrow> real \<Rightarrow> Effect list \<times> Outcome" where
  "processOrderMessage_A fmt job get post random now =
     (let order = job_order job; type = job_type job; instance = evolutionInstance job;
          message = formatOrderMessage_AB fmt order type;
          pre = [startLog_AB job, HttpGet instance]
      in case get of
           Inl error \<Rightarrow>
             (case err_response error of
                Some r \<Rightarrow>
                  (let err = new_Error (''Evolution API error: '' @ number_to_string (resp_status r)
                                         @ '' - '' @ resp_data r)
                   in (pre, Threw (err\<lparr>err_status := Some (resp_status r)\<rparr>)))
              | None \<Rightarrow> (pre, Threw error))
         | Inr NoInstance \<Rightarrow> (pre, Threw state_TypeError)
         | Inr data \<Rightarrow>
             (if (case data of InstanceState st \<Rightarrow> \<not> truthy_str st \<or> st \<noteq> Some ''open'' | _ \<Rightarrow> True) then
                (let delay = js_add (Some 60000) (js_mul (Some random) (Some 60000))
                 in (pre @ [notReadyLog_AB job, UpdateProgress ''waiting_instance'',
                            MoveToDelayed (js_add (Some now) delay)], Returned))
              else
                (let pre2 = pre @ [Log (''Sending message for order '' @ number_to_string (code order)
                                         @ '' to '' @ customerPhone order),
                                   HttpPost instance (customerPhone order) message]
                 in case post of
                      None \<Rightarrow>
                        (pre2 @ [Log (''Message sent successfully for order '' @ number_to_string (code order))],
                         Returned)
                    | Some error \<Rightarrow>
                        (let err = sendMessage_A error
                         in if isTemporaryProviderError_A err then (pre2, Threw err)
                            else (pre2 @ [Log (''Message failed for order '' @ number_to_string (code order)
                                               @ '': '' @ message_text err),
                                          MoveToFailed err ''message_send_failure''],
                                  Returned)))))"

text \<open>\<open>part_000\<close>, lines 532 to 591.\<close>

definition processOrderMessage_B ::
  "(int option \<Rightarrow> string) \<Rightarrow> OrderMessageJobData \<Rightarrow> JsError + ConnectionData \<Rightarrow> JsError option
     \<Rightarrow> Effect list \<times> Outcome" where
  "processOrderMessage_B fmt job get post =
     (let order = job_order job; type = job_type job; instance = evolutionInstance job;
          message = formatOrderMessage_AB fmt order type;
          pre = [startLog_AB job, HttpGet instance]
      in case get of
           Inl error \<Rightarrow>
             (let status = response_status error
              in if status = Some 404 then
                   (pre @ [Log (''Evolution instance '' @ instance @ '' not found, delaying job (order ''
                                @ number_to_string (code order) @ '').'')],
                    Returned)
                 else (pre, Threw error))
         | Inr NoInstance \<Rightarrow> (pre, Threw state_TypeError)
         | Inr data \<Rightarrow>
             (if (case data of InstanceState st \<Rightarrow> \<not> truthy_str st \<or> st \<noteq> Some ''open'' | _ \<Rightarrow> True) then
                (let err = new_Error ''Evolution instance not ready''
                 in (pre @ [notReadyLog_AB job], Threw (err\<lparr>err_status := Some 503\<rparr>)))
              else
                (let pre2 = pre @ [HttpPost instance (customerPhone order) message]
                 in case post of
                      None \<Rightarrow>
                        (pre2 @ [Log (''Message sent successfully for order '' @ number_to_string (code order))],
                         Returned)
                    | Some error \<Rightarrow>
                        (let err = sendMessage_B error;
                             status = response_status err
                         in if status = Some 404 then
                              (pre2 @ [Log (''Evolution instance '' @ instance
                                            @ '' not found during message send, delaying job (order ''
                                            @ number_to_string (code order) @ '').'')],
                               Returned)
                            else if isTemporaryProviderError_B err then (pre2, Threw err)
                            else (pre2, Threw err)))))"

text \<open>\<open>part_001\<close>, lines 168 to 208.\<close>

definition processOrderMessage_C ::
  "(int option \<Rightarrow> string) \<Rightarrow> OrderMessageJobData \<Rightarrow> JsError + ConnectionData \<Rightarrow> JsError option
     \<Rightarrow> Effect list \<times> Outcome" where
  "processOrderMessage_C fmt job get post =
     (let order = job_order job; type = job_type job; instance = evolutionInstance job;
          pre = [Log (''Processing order '' @ number_to_string (code order) @ '' ('' @ type_text type @ '')''),
                 HttpGet instance];
          message = formatOrderMessage_C fmt order type
      in case get of
           Inl error \<Rightarrow>
             (let status = response_status error
              in if status = Some 404 then
                   (pre, Threw ((new_Error ''Evolution instance not found'')\<lparr>err_status := Some 404\<rparr>))
                 else (pre, Threw error))
         | Inr instanceState \<Rightarrow>
             (if (case instanceState of InstanceState st \<Rightarrow> st \<noteq> Some ''open'' | _ \<Rightarrow> True) then
                (let err = new_Error ''Evolution instance not ready''
                 in (pre, Threw (err\<lparr>err_status := Some 503\<rparr>)))
              else
                (let pre2 = pre @ [HttpPost instance (customerPhone order) message]
                 in case post of
                      None \<Rightarrow> (pre2 @ [Log ''Message sent successfully''], Returned)
                    | Some error \<Rightarrow>
                        (let err = sendMessage_C error
                         in if err_status err = Some 404 then (pre2, Threw err)
                            else if isTemporaryProviderError_C err then (pre2, Threw err)
                            else (pre2, Threw err)))))"

text \<open>The observations the properties below are about.\<close>

definition sends :: "Effect list \<Rightarrow> Effect list" where
  "sends es = filter (\<lambda>e. case e of HttpPost _ _ _ \<Rightarrow> True | _ \<Rightarrow> False) es"

definition delays :: "Effect list \<Rightarrow> real option list" where
  "delays es = concat (map (\<lambda>e. case e of MoveToDelayed t \<Rightarrow> [t] | _ \<Rightarrow> []) es)"

section \<open>Example data\<close>

text \<open>
  The order of the specification's end-to-end scenario (one two-flavor pizza priced by the
  average, paid in cash with change), with a second line that has complements.
\<close>

definition example_pizza :: OrderItem where
  "example_pizza =
     \<lparr>quantity = 1, item_name = ''Pizza'', price = Some 0, item_notes = None,
      complements = None, orderItemComplements = None,
      pizzaFlavors = Some [\<lparr>flavor_name = ''Calabresa'', flavor_price = 1000\<rparr>,
                           \<lparr>flavor_name = ''Marguerita'', flavor_price = 1400\<rparr>],
      orderItemPizzaFlavors = None,
      pizzaPricingType = Some ''average'', pizzaConfig_pricingType = None\<rparr>"

definition example_burger :: OrderItem where
  "example_burger =
     \<lparr>quantity = 3, item_name = ''Burger'', price = Some 2000, item_notes = Some ''sem cebola'',
      complements = None,
      orderItemComplements = Some [\<lparr>comp_quantity = 2, comp_name = ''Bacon'', comp_price = Some 150\<rparr>,
                                   \<lparr>comp_quantity = 1, comp_name = ''Molho'', comp_price = None\<rparr>],
      pizzaFlavors = None, orderItemPizzaFlavors = None,
      pizzaPricingType = None, pizzaConfig_pricingType = None\<rparr>"

definition example_order :: OrderData where
  "example_order =
     \<lparr>code = 42, customerName = ''Ana'', customerPhone = ''5511999990000'', order_notes = None,
      paymentMethod = ''cash'', change = Some 500, status = ''pending'',
      deliveryMethodCode = Some ''delivery'', items = [example_pizza, example_burger]\<rparr>"

text \<open>The same order with a payment method and a delivery method the templates do not know.\<close>

definition example_voucher_order :: OrderData where
  "example_voucher_order = example_order\<lparr>paymentMethod := ''voucher'', deliveryMethodCode := None\<rparr>"

text \<open>A currency formatter for the examples: \<open>R$\<close>, the units, a comma and two digits.\<close>

definition example_fmt :: "int option \<Rightarrow> string" where
  "example_fmt n =
     (case n of
        Some v \<Rightarrow> ''R$ '' @ number_to_string (v div 100) @ '','' @ digits_of_nat (nat (v mod 100 div 10))
                   @ digits_of_nat (nat (v mod 10))
      | None \<Rightarrow> ''NaN'')"

text \<open>
  Errors as axios rejects with them: an answer with an HTTP status (no \<open>status\<close> of its own,
  the response attached), a timeout and a reset connection (no response).
\<close>

definition http_error :: "int \<Rightarrow> JsError" where
  "http_error st =
     \<lparr>err_name = ''AxiosError'',
      err_message = Some (''Request failed with status code '' @ number_to_string st),
      err_code = Some (if st \<ge> 500 then ''ERR_BAD_RESPONSE'' else ''ERR_BAD_REQUEST''),
      err_status = None,
      err_response = Some \<lparr>resp_status = st, resp_data = ''{}''\<rparr>\<rparr>"

definition timeout_error :: JsError where
  "timeout_error =
     \<lparr>err_name = ''AxiosError'', err_message = Some ''timeout of 5000ms exceeded'',
      err_code = Some ''ECONNABORTED'', err_status = None, err_response = None\<rparr>"

definition reset_error :: JsError where
  "reset_error =
     \<lparr>err_name = ''Error'', err_message = Some ''socket hang up'',
      err_code = Some ''ECONNRESET'', err_status = None, err_response = None\<rparr>"

definition example_job :: OrderMessageJobData where
  "example_job =
     \<lparr>job_type = ORDER_CREATED, job_order = example_order, sequence = 1, evolutionInstance = ''shop1''\<rparr>"

text \<open>
  An order of one line whose complements cost \<open>2^53\<close>, 1 and 1, and the same order with the
  complements in the reverse order.
\<close>

definition example_large_order :: OrderData where
  "example_large_order =
     example_order\<lparr>items :=
       [\<lparr>quantity = 1, item_name = ''Burger'', price = Some 0, item_notes = None,
         complements = None,
         orderItemComplements =
           Some [\<lparr>comp_quantity = 1, comp_name = ''a'', comp_price = Some 9007199254740992\<rparr>,
                 \<lparr>comp_quantity = 1, comp_name = ''b'', comp_price = Some 1\<rparr>,
                 \<lparr>comp_quantity = 1, comp_name = ''c'', comp_price = Some 1\<rparr>],
         pizzaFlavors = None, orderItemPizzaFlavors = None,
         pizzaPricingType = None, pizzaConfig_pricingType = None\<rparr>]\<rparr>"

text \<open>A line with flavor prices 500 and 700, base price \<open>p\<close> and pricing type \<open>t\<close>.\<close>

definition two_flavors :: "int option \<Rightarrow> string option \<Rightarrow> OrderItem" where
  "two_flavors p t =
     \<lparr>quantity = 1, item_name = ''Pizza'', price = p, item_notes = None,
      complements = None, orderItemComplements = None,
      pizzaFlavors = Some [\<lparr>flavor_name = ''a'', flavor_price = 500\<rparr>,
                           \<lparr>flavor_name = ''b'', flavor_price = 700\<rparr>],
      orderItemPizzaFlavors = None,
      pizzaPricingType = t, pizzaConfig_pricingType = None\<rparr>"

section \<open>Pricing: properties\<close>

lemma foldl_add_sum_list: "foldl (+) (a::int) xs = a + sum_list xs"
  by (induction xs arbitrary: a) simp_all

lemma math_max_nonempty: "xs \<noteq> [] \<Longrightarrow> \<exists>v. math_max xs = Some v"
  by (cases xs) simp_all

lemma math_max_None_iff: "math_max xs = None \<longleftrightarrow> xs = []"
  by (cases xs) simp_all

lemma math_round_div_None_iff: "math_round_div s n = None \<longleftrightarrow> n = 0"
  by (simp add: math_round_div_def)

lemma calculateItemPrice_CW_finite: "\<exists>v. calculateItemPrice_CW item = Some v"
  by (auto simp: calculateItemPrice_CW_def Let_def math_round_div_def has_length_def
      intro: math_max_nonempty split: option.splits)

lemma calculateItemPrice_AB_finite: "\<exists>v. calculateItemPrice_AB item = Some v"
  by (auto simp: calculateItemPrice_AB_def Let_def math_round_div_def has_length_def
      intro: math_max_nonempty split: option.splits)

lemma no_flavors_CW:
  "\<not> has_length (or_array (pizzaFlavors item) (orderItemPizzaFlavors item))
   \<Longrightarrow> calculateItemPrice_CW item = Some (nullish0 (price item))"
  by (simp add: calculateItemPrice_CW_def Let_def)

lemma no_flavors_AB:
  "\<not> has_length (or_array (pizzaFlavors item) (orderItemPizzaFlavors item))
   \<Longrightarrow> calculateItemPrice_AB item = Some (nullish0 (price item))"
  by (simp add: calculateItemPrice_AB_def Let_def)

text \<open>
  C10. \<open>calculateItemPrice\<close> is total, in both of its texts: for every line the result is a
  finite number, so the division by a zero count and the maximum of no argument (the only
  two sources of a non-finite number) never decide it; and a line without flavors and
  without a base price costs 0.
\<close>

theorem calculateItemPrice_total:
  "(\<exists>v. calculateItemPrice_CW item = Some v) \<and> (\<exists>v. calculateItemPrice_AB item = Some v)
   \<and> (\<not> has_length (or_array (pizzaFlavors item) (orderItemPizzaFlavors item)) \<and> price item = None
        \<longrightarrow> calculateItemPrice_CW item = Some 0 \<and> calculateItemPrice_AB item = Some 0)"
  using calculateItemPrice_CW_finite [of item] calculateItemPrice_AB_finite [of item]
    no_flavors_CW [of item] no_flavors_AB [of item]
  by (auto simp: nullish0_def)

theorem calculateItemPrice_total_witness:
  "\<not> has_length (or_array (pizzaFlavors (example_burger\<lparr>price := None\<rparr>))
        (orderItemPizzaFlavors (example_burger\<lparr>price := None\<rparr>)))
   \<and> price (example_burger\<lparr>price := None\<rparr>) = None
   \<and> calculateItemPrice_CW (example_burger\<lparr>price := None\<rparr>) = Some 0
   \<and> calculateItemPrice_AB (example_burger\<lparr>price := None\<rparr>) = Some 0
   \<and> calculateItemPrice_CW example_pizza = Some 1200
   \<and> calculateItemPrice_AB example_pizza = Some 1200"
proof -
  have h: "\<not> has_length (or_array (pizzaFlavors (example_burger\<lparr>price := None\<rparr>))
        (orderItemPizzaFlavors (example_burger\<lparr>price := None\<rparr>)))
     \<and> price (example_burger\<lparr>price := None\<rparr>) = None"
    by (simp add: example_burger_def has_length_def or_array_def)
  have p: "calculateItemPrice_CW example_pizza = Some 1200 \<and> calculateItemPrice_AB example_pizza = Some 1200"
    by (simp add: example_pizza_def calculateItemPrice_CW_def calculateItemPrice_AB_def Let_def
        has_length_def or_array_def or_str_def truthy_str_def math_round_div_def)
  show ?thesis
    using h p calculateItemPrice_total [of "example_burger\<lparr>price := None\<rparr>"] by blast
qed



text \<open>
  Where \<open>calculateItemPrice\<close> ends in the average (\<open>worker.ts\<close>, \<open>part_001\<close>), a line with
  flavors never reads its base price, and every pricing type other than \<open>sum\<close> and \<open>max\<close>
  is the average.
\<close>

lemma calculateItemPrice_CW_ignores_price:
  assumes "has_length (or_array (pizzaFlavors item) (orderItemPizzaFlavors item))"
  shows "calculateItemPrice_CW (item\<lparr>price := p\<rparr>) = calculateItemPrice_CW item"
  using assms by (simp add: calculateItemPrice_CW_def Let_def)

lemma calculateItemPrice_CW_default_average:
  assumes "or_array (pizzaFlavors item) (orderItemPizzaFlavors item) = Some fs" and "fs \<noteq> []"
      and "or_str (pizzaPricingType item) (pizzaConfig_pricingType item) ''average'' \<notin> {''sum'', ''max''}"
  shows "calculateItemPrice_CW item
         = Some ((2 * sum_list (map flavor_price fs) + int (length fs)) div (2 * int (length fs)))"
  using assms
  by (simp add: calculateItemPrice_CW_def Let_def has_length_def math_round_div_def foldl_add_sum_list)

text \<open>
  In \<open>part_000\<close> the same holds as long as the pricing type is one of the three the chain
  tests, or absent.
\<close>

lemma calculateItemPrice_AB_known_type:
  assumes "has_length (or_array (pizzaFlavors item) (orderItemPizzaFlavors item))"
      and "or_str (pizzaPricingType item) (pizzaConfig_pricingType item) ''average''
             \<in> {''sum'', ''average'', ''max''}"
  shows "calculateItemPrice_AB (item\<lparr>price := p\<rparr>) = calculateItemPrice_AB item"
    and "calculateItemPrice_AB item = calculateItemPrice_CW item"
  using assms by (auto simp: calculateItemPrice_AB_def calculateItemPrice_CW_def Let_def)

text \<open>
  The flavor list of a line is \<open>item.pizzaFlavors || item.orderItemPizzaFlavors\<close>, and an
  empty array is truthy: an empty \<open>pizzaFlavors\<close> hides the flavors of
  \<open>orderItemPizzaFlavors\<close>, and the line costs its base price, in every revision.
\<close>

lemma empty_pizzaFlavors_hides_the_other_list:
  assumes "pizzaFlavors item = Some []"
  shows "calculateItemPrice_CW item = Some (nullish0 (price item))"
    and "calculateItemPrice_AB item = Some (nullish0 (price item))"
  using assms
  by (simp_all add: calculateItemPrice_CW_def calculateItemPrice_AB_def Let_def or_array_def
      has_length_def)

text \<open>
  C5. The claim is that a line with flavors never reads its base price and that an
  unrecognized pricing type behaves as \<open>average\<close>. In \<open>part_000\<close> the line with flavor prices
  500 and 700 and the pricing type \<open>min\<close> costs its base price, 100 or 200, where
  \<open>worker.ts\<close> and \<open>part_001\<close> give the average, 600.
\<close>

theorem unknown_pricing_type_reads_price_AB:
  "calculateItemPrice_AB (two_flavors (Some 100) (Some ''min'')) = Some 100
   \<and> calculateItemPrice_AB (two_flavors (Some 200) (Some ''min'')) = Some 200
   \<and> calculateItemPrice_CW (two_flavors (Some 100) (Some ''min'')) = Some 600
   \<and> calculateItemPrice_CW (two_flavors (Some 200) (Some ''min'')) = Some 600"
  by (simp add: two_flavors_def calculateItemPrice_AB_def calculateItemPrice_CW_def Let_def
      has_length_def or_array_def or_str_def truthy_str_def math_round_div_def nullish0_def)

text \<open>
  Rounding: below \<open>2^53\<close> in absolute value every integer is a double, so that sums and
  products that stay there are exact.
\<close>

declare bit_length.simps [simp del]

lemma bit_length_le: "n < 2 ^ k \<Longrightarrow> bit_length n \<le> k"
proof (induction k arbitrary: n)
  case 0
  then show ?case by (simp add: bit_length.simps)
next
  case (Suc k)
  show ?case
  proof (cases "n \<le> 0")
    case True
    then show ?thesis by (simp add: bit_length.simps)
  next
    case False
    have "n div 2 < 2 ^ k" using Suc.prems by simp
    then have "bit_length (n div 2) \<le> k" by (rule Suc.IH)
    then show ?thesis using False by (simp add: bit_length.simps [of n])
  qed
qed

lemma round53_small: "\<bar>i\<bar> < 2 ^ 53 \<Longrightarrow> round53 i = i"
proof -
  assume a: "\<bar>i\<bar> < 2 ^ 53"
  then have "bit_length \<bar>i\<bar> \<le> 53" by (rule bit_length_le)
  then have z: "bit_length \<bar>i\<bar> - 53 = 0" by simp
  have "round53 i = sgn i * \<bar>i\<bar>"
    unfolding round53_def Let_def z by simp
  then show ?thesis by (simp add: mult_sgn_abs)
qed

lemma round53_at_2_53:
  "round53 9007199254740992 = 9007199254740992"
  "round53 (- 9007199254740992) = - 9007199254740992"
  by code_simp+

lemma two_53: "(2::int) ^ 53 = 9007199254740992"
  by simp

lemma round53_exact: "\<bar>i\<bar> \<le> 2 ^ 53 \<Longrightarrow> round53 i = i"
proof (cases "\<bar>i\<bar> < 2 ^ 53")
  case True
  then show ?thesis by (rule round53_small)
next
  case False
  assume "\<bar>i\<bar> \<le> 2 ^ 53"
  with False have "i = 9007199254740992 \<or> i = - 9007199254740992" unfolding two_53 by linarith
  then show ?thesis using round53_at_2_53 by auto
qed

lemma to_number_exact: "\<bar>i\<bar> \<le> 2 ^ 53 \<Longrightarrow> to_number i = Some i"
proof -
  assume a: "\<bar>i\<bar> \<le> 2 ^ 53"
  have "(2::int) ^ 53 < 2 ^ 1024" by (rule power_strict_increasing) simp_all
  with a have "\<bar>i\<bar> < 2 ^ 1024" by linarith
  then show ?thesis using round53_exact [OF a] by (simp add: to_number_def Let_def)
qed

lemma num_add_exact: "\<bar>x + y\<bar> \<le> 2 ^ 53 \<Longrightarrow> num_add (Some x) (Some y) = Some (x + y)"
  by (simp add: num_add_def to_number_exact)

lemma num_mul_exact: "\<bar>x * y\<bar> \<le> 2 ^ 53 \<Longrightarrow> num_mul (Some x) (Some y) = Some (x * y)"
  by (simp add: num_mul_def to_number_exact)

lemma foldl_complements_exact:
  assumes "\<bar>a\<bar> + (\<Sum>c\<leftarrow>cs. \<bar>nullish0 (comp_price c) * comp_quantity c\<bar>) \<le> 2 ^ 53"
  shows "foldl (\<lambda>sum c. num_add sum (num_mul (Some (nullish0 (comp_price c))) (Some (comp_quantity c))))
           (Some a) cs
         = Some (a + (\<Sum>c\<leftarrow>cs. nullish0 (comp_price c) * comp_quantity c))"
  using assms
proof (induction cs arbitrary: a)
  case Nil
  then show ?case by simp
next
  case (Cons c cs)
  let ?t = "nullish0 (comp_price c) * comp_quantity c"
  let ?rest = "\<Sum>c\<leftarrow>cs. \<bar>nullish0 (comp_price c) * comp_quantity c\<bar>"
  have rest0: "0 \<le> ?rest" by (rule sum_list_nonneg) auto
  have bound: "\<bar>a\<bar> + \<bar>?t\<bar> + ?rest \<le> 2 ^ 53" using Cons.prems by simp
  have m: "num_mul (Some (nullish0 (comp_price c))) (Some (comp_quantity c)) = Some ?t"
    by (rule num_mul_exact) (use bound rest0 in linarith)
  have "\<bar>a + ?t\<bar> \<le> \<bar>a\<bar> + \<bar>?t\<bar>" by (rule abs_triangle_ineq)
  then have at: "\<bar>a + ?t\<bar> + ?rest \<le> 2 ^ 53" using bound by linarith
  then have ad: "num_add (Some a) (Some ?t) = Some (a + ?t)"
    using rest0 by (intro num_add_exact) linarith
  have "foldl (\<lambda>sum c. num_add sum (num_mul (Some (nullish0 (comp_price c))) (Some (comp_quantity c))))
           (Some (a + ?t)) cs
         = Some (a + ?t + (\<Sum>c\<leftarrow>cs. nullish0 (comp_price c) * comp_quantity c))"
    using at by (rule Cons.IH)
  then show ?case by (simp add: m ad add.assoc)
qed

lemma complementsReduce_exact:
  assumes "(\<Sum>c\<leftarrow>cs. \<bar>nullish0 (comp_price c) * comp_quantity c\<bar>) \<le> 2 ^ 53"
  shows "complementsReduce cs = Some (\<Sum>c\<leftarrow>cs. nullish0 (comp_price c) * comp_quantity c)"
  using foldl_complements_exact [of 0 cs] assms by (simp add: complementsReduce_def)

lemma abs_sum_list_le: "\<bar>\<Sum>c\<leftarrow>cs. (f c :: int)\<bar> \<le> (\<Sum>c\<leftarrow>cs. \<bar>f c\<bar>)"
proof (induction cs)
  case Nil
  then show ?case by simp
next
  case (Cons c cs)
  have "\<bar>f c + (\<Sum>c\<leftarrow>cs. f c)\<bar> \<le> \<bar>f c\<bar> + \<bar>\<Sum>c\<leftarrow>cs. f c\<bar>" by (rule abs_triangle_ineq)
  then show ?case using Cons.IH by simp
qed

lemma lineMagnitude_nonneg: "0 \<le> lineMagnitude p item"
proof -
  have "0 \<le> (\<Sum>c\<leftarrow>complements_of item. \<bar>nullish0 (comp_price c) * comp_quantity c\<bar>)"
    by (rule sum_list_nonneg) auto
  then show ?thesis by (simp add: lineMagnitude_def)
qed

lemma orderTotalStep_exact:
  assumes v: "calcItem item = Some v"
      and bound: "\<bar>acc\<bar> + lineMagnitude v item \<le> 2 ^ 53"
  shows "orderTotalStep calcItem (Some acc) item = Some (acc + lineTotal v item)"
proof -
  let ?cm = "\<Sum>c\<leftarrow>complements_of item. \<bar>nullish0 (comp_price c) * comp_quantity c\<bar>"
  let ?ct = "\<Sum>c\<leftarrow>complements_of item. nullish0 (comp_price c) * comp_quantity c"
  let ?q = "quantity item"
  have cm0: "0 \<le> ?cm" by (rule sum_list_nonneg) auto
  have ctcm: "\<bar>?ct\<bar> \<le> ?cm" by (rule abs_sum_list_le)
  have lm: "lineMagnitude v item = (\<bar>v\<bar> + ?cm) * max 1 \<bar>?q\<bar>"
    by (simp add: lineMagnitude_def)
  have s0: "0 \<le> \<bar>v\<bar> + ?cm" using cm0 by simp
  have one: "(\<bar>v\<bar> + ?cm) * 1 \<le> (\<bar>v\<bar> + ?cm) * max 1 \<bar>?q\<bar>"
    using s0 by (intro mult_left_mono) simp_all
  have absq: "(\<bar>v\<bar> + ?cm) * \<bar>?q\<bar> \<le> (\<bar>v\<bar> + ?cm) * max 1 \<bar>?q\<bar>"
    using s0 by (intro mult_left_mono) simp_all
  have lmb: "lineMagnitude v item \<le> 2 ^ 53" using bound by linarith
  have b1: "\<bar>v\<bar> + ?cm \<le> 2 ^ 53" using one lm lmb by simp
  have r: "complementsReduce (complements_of item) = Some ?ct"
    by (rule complementsReduce_exact) (use b1 in linarith)
  have "\<bar>v + ?ct\<bar> \<le> \<bar>v\<bar> + \<bar>?ct\<bar>" by (rule abs_triangle_ineq)
  then have vct: "\<bar>v + ?ct\<bar> \<le> \<bar>v\<bar> + ?cm" using ctcm by linarith
  then have a1: "num_add (Some v) (Some ?ct) = Some (v + ?ct)"
    using b1 by (intro num_add_exact) linarith
  have "\<bar>(v + ?ct) * ?q\<bar> = \<bar>v + ?ct\<bar> * \<bar>?q\<bar>" by (rule abs_mult)
  also have "\<dots> \<le> (\<bar>v\<bar> + ?cm) * \<bar>?q\<bar>" using vct by (intro mult_right_mono) simp_all
  finally have pq: "\<bar>(v + ?ct) * ?q\<bar> \<le> lineMagnitude v item" using absq lm by linarith
  then have m1: "num_mul (Some (v + ?ct)) (Some ?q) = Some ((v + ?ct) * ?q)"
    using lmb by (intro num_mul_exact) linarith
  have "\<bar>acc + (v + ?ct) * ?q\<bar> \<le> \<bar>acc\<bar> + \<bar>(v + ?ct) * ?q\<bar>" by (rule abs_triangle_ineq)
  then have a2: "num_add (Some acc) (Some ((v + ?ct) * ?q)) = Some (acc + (v + ?ct) * ?q)"
    using pq bound by (intro num_add_exact) linarith
  show ?thesis
    unfolding orderTotalStep_def Let_def v r a1 m1 a2 lineTotal_def ..
qed

lemma foldl_orderTotalStep:
  assumes fin: "\<And>item. item \<in> set xs \<Longrightarrow> \<exists>v. calcItem item = Some v"
      and bound: "\<bar>a\<bar> + (\<Sum>item\<leftarrow>xs. lineMagnitude (the (calcItem item)) item) \<le> 2 ^ 53"
  shows "foldl (orderTotalStep calcItem) (Some a) xs =
     Some (a + (\<Sum>item\<leftarrow>xs. lineTotal (the (calcItem item)) item))"
  using fin bound
proof (induction xs arbitrary: a)
  case Nil
  then show ?case by simp
next
  case (Cons x xs)
  obtain v where v: "calcItem x = Some v" using Cons.prems(1) [of x] by auto
  define rest where "rest = (\<Sum>item\<leftarrow>xs. lineMagnitude (the (calcItem item)) item)"
  have rest0: "0 \<le> rest" unfolding rest_def by (rule sum_list_nonneg) (auto simp: lineMagnitude_nonneg)
  have b: "\<bar>a\<bar> + lineMagnitude v x + rest \<le> 2 ^ 53" using Cons.prems(2) v by (simp add: rest_def)
  have step: "orderTotalStep calcItem (Some a) x = Some (a + lineTotal v x)"
    using b rest0 by (intro orderTotalStep_exact [of calcItem x v a] v) linarith
  have "\<bar>lineTotal v x\<bar> \<le> lineMagnitude v x"
  proof -
    define cm where "cm = (\<Sum>c\<leftarrow>complements_of x. \<bar>nullish0 (comp_price c) * comp_quantity c\<bar>)"
    define ct where "ct = (\<Sum>c\<leftarrow>complements_of x. nullish0 (comp_price c) * comp_quantity c)"
    have cm0: "0 \<le> cm" unfolding cm_def by (rule sum_list_nonneg) auto
    have "\<bar>ct\<bar> \<le> cm" unfolding ct_def cm_def by (rule abs_sum_list_le)
    moreover have "\<bar>v + ct\<bar> \<le> \<bar>v\<bar> + \<bar>ct\<bar>" by (rule abs_triangle_ineq)
    ultimately have vct: "\<bar>v + ct\<bar> \<le> \<bar>v\<bar> + cm" by linarith
    have "\<bar>(v + ct) * quantity x\<bar> = \<bar>v + ct\<bar> * \<bar>quantity x\<bar>" by (rule abs_mult)
    also have "\<dots> \<le> (\<bar>v\<bar> + cm) * \<bar>quantity x\<bar>" by (rule mult_right_mono) (use vct in simp_all)
    also have "\<dots> \<le> (\<bar>v\<bar> + cm) * max 1 \<bar>quantity x\<bar>"
      by (rule mult_left_mono) (use cm0 in simp_all)
    finally show ?thesis by (simp add: lineTotal_def lineMagnitude_def cm_def ct_def)
  qed
  moreover have "\<bar>a + lineTotal v x\<bar> \<le> \<bar>a\<bar> + \<bar>lineTotal v x\<bar>" by (rule abs_triangle_ineq)
  ultimately have b': "\<bar>a + lineTotal v x\<bar> + rest \<le> 2 ^ 53" using b by linarith
  have "foldl (orderTotalStep calcItem) (Some (a + lineTotal v x)) xs =
     Some (a + lineTotal v x + (\<Sum>item\<leftarrow>xs. lineTotal (the (calcItem item)) item))"
    by (rule Cons.IH) (use b' Cons.prems(1) in \<open>simp_all add: rest_def\<close>)
  then show ?case using step v by (simp add: add.assoc)
qed

lemma calculateOrderTotal_sum:
  assumes "\<forall>item\<in>set (items order). \<exists>v. calcItem item = Some v"
      and "within_exact_range calcItem order"
  shows "calculateOrderTotal calcItem order
         = Some (\<Sum>item\<leftarrow>items order. lineTotal (the (calcItem item)) item)"
  using foldl_orderTotalStep [of "items order" calcItem 0] assms
  by (simp add: calculateOrderTotal_def within_exact_range_def)


lemma mset_sum_list_cong:
  "mset xs = mset ys \<Longrightarrow> (\<Sum>c\<leftarrow>xs. (f c :: int)) = (\<Sum>c\<leftarrow>ys. f c)"
  by (metis mset_map sum_mset_sum_list)

lemma complements_of_rearranged:
  "complements_of (item\<lparr>complements := map_option f (complements item),
                        orderItemComplements := map_option f (orderItemComplements item)\<rparr>)
   = (case or_array (complements item) (orderItemComplements item) of Some cs \<Rightarrow> f cs | None \<Rightarrow> [])"
  by (auto simp: complements_of_def or_array_def split: option.splits)

lemma lineTotal_rearranged:
  assumes "\<And>cs. mset (f cs) = mset cs"
  shows "lineTotal p (item\<lparr>complements := map_option f (complements item),
                        orderItemComplements := map_option f (orderItemComplements item)\<rparr>)
         = lineTotal p item"
proof -
  have "(\<Sum>c\<leftarrow>f cs. nullish0 (comp_price c) * comp_quantity c)
        = (\<Sum>c\<leftarrow>cs. nullish0 (comp_price c) * comp_quantity c)" for cs
    using assms by (rule mset_sum_list_cong)
  then show ?thesis
    by (simp add: lineTotal_def complements_of_rearranged, simp add: complements_of_def split: option.splits)
qed

lemma lineMagnitude_rearranged:
  assumes "\<And>cs. mset (f cs) = mset cs"
  shows "lineMagnitude p (item\<lparr>complements := map_option f (complements item),
                        orderItemComplements := map_option f (orderItemComplements item)\<rparr>)
         = lineMagnitude p item"
proof -
  have "(\<Sum>c\<leftarrow>f cs. \<bar>nullish0 (comp_price c) * comp_quantity c\<bar>)
        = (\<Sum>c\<leftarrow>cs. \<bar>nullish0 (comp_price c) * comp_quantity c\<bar>)" for cs
    using assms by (rule mset_sum_list_cong)
  then show ?thesis
    by (simp add: lineMagnitude_def complements_of_rearranged, simp add: complements_of_def split: option.splits)
qed

lemma calculateItemPrice_CW_rearranged:
  "calculateItemPrice_CW (item\<lparr>complements := a, orderItemComplements := b\<rparr>) = calculateItemPrice_CW item"
  by (simp add: calculateItemPrice_CW_def Let_def)

lemma calculateItemPrice_AB_rearranged:
  "calculateItemPrice_AB (item\<lparr>complements := a, orderItemComplements := b\<rparr>) = calculateItemPrice_AB item"
  by (simp add: calculateItemPrice_AB_def Let_def)

lemma within_exact_range_rearranged:
  assumes perm: "\<And>cs. mset (f cs) = mset cs"
      and same: "\<And>item a b. calcItem (item\<lparr>complements := a, orderItemComplements := b\<rparr>) = calcItem item"
  shows "within_exact_range calcItem (rearrangeComplements f order) = within_exact_range calcItem order"
  by (simp add: within_exact_range_def rearrangeComplements_def comp_def same
      lineMagnitude_rearranged [OF perm])

lemma calculateOrderTotal_rearranged:
  assumes fin: "\<forall>item\<in>set (items order). \<exists>v. calcItem item = Some v"
      and perm: "\<And>cs. mset (f cs) = mset cs"
      and same: "\<And>item a b. calcItem (item\<lparr>complements := a, orderItemComplements := b\<rparr>) = calcItem item"
      and range: "within_exact_range calcItem order"
  shows "calculateOrderTotal calcItem (rearrangeComplements f order) = calculateOrderTotal calcItem order"
proof -
  have r': "within_exact_range calcItem (rearrangeComplements f order)"
    using range within_exact_range_rearranged [of f calcItem order, OF perm same] by simp
  have fin': "\<forall>item\<in>set (items (rearrangeComplements f order)). \<exists>v. calcItem item = Some v"
    using fin by (auto simp: rearrangeComplements_def same)
  show ?thesis
    unfolding calculateOrderTotal_sum [OF fin range] calculateOrderTotal_sum [OF fin' r']
    by (simp add: rearrangeComplements_def comp_def same lineTotal_rearranged [OF perm])
qed

text \<open>
  C8, as the code has it. \<open>calculateOrderTotal\<close> adds and multiplies binary64 numbers from
  left to right. The unit price of a line is a parameter here: what follows holds for
  whatever \<open>calculateItemPrice\<close> returns, as long as it is a finite number on every line of
  the order. For every order within the exact range (the magnitudes of its lines,
  \<open>lineMagnitude\<close>, add up to \<open>2^53\<close> at most), \<open>calculateOrderTotal\<close> is the sum over the
  lines of (unit price + sum over the complements of price times quantity, an absent
  complement price counting as 0) times the quantity of the line; it is a finite number
  (the function has no failing branch); and rearranging the complements of the lines by
  any \<open>f\<close> that keeps the elements of every list leaves it unchanged, the unit price not
  depending on the complements, which holds of both texts of \<open>calculateItemPrice\<close>. A
  line without flavors has its base price as unit price, 0 when the base price is absent.
\<close>

theorem orderTotal_is_sum_of_lines:
  "((\<forall>item\<in>set (items order). \<exists>v. calcItem item = Some v) \<and> within_exact_range calcItem order \<longrightarrow>
      calculateOrderTotal calcItem order
        = Some (\<Sum>item\<leftarrow>items order. lineTotal (the (calcItem item)) item))
   \<and> ((\<forall>item\<in>set (items order). \<exists>v. calcItem item = Some v) \<and> within_exact_range calcItem order
        \<and> (\<forall>cs. mset (f cs) = mset cs)
        \<and> (\<forall>item a b. calcItem (item\<lparr>complements := a, orderItemComplements := b\<rparr>) = calcItem item)
        \<longrightarrow> calculateOrderTotal calcItem (rearrangeComplements f order)
              = calculateOrderTotal calcItem order)
   \<and> calculateOrderTotal_CW = calculateOrderTotal calculateItemPrice_CW
   \<and> calculateOrderTotal_AB = calculateOrderTotal calculateItemPrice_AB
   \<and> (\<forall>item a b. calculateItemPrice_CW (item\<lparr>complements := a, orderItemComplements := b\<rparr>)
                    = calculateItemPrice_CW item)
   \<and> (\<forall>item a b. calculateItemPrice_AB (item\<lparr>complements := a, orderItemComplements := b\<rparr>)
                    = calculateItemPrice_AB item)
   \<and> (\<forall>item. \<not> has_length (or_array (pizzaFlavors item) (orderItemPizzaFlavors item)) \<longrightarrow>
          calculateItemPrice_CW item = Some (nullish0 (price item))
          \<and> calculateItemPrice_AB item = Some (nullish0 (price item)))
   \<and> nullish0 None = 0"
proof -
  have sum: "(\<forall>item\<in>set (items order). \<exists>v. calcItem item = Some v) \<and> within_exact_range calcItem order \<longrightarrow>
      calculateOrderTotal calcItem order
        = Some (\<Sum>item\<leftarrow>items order. lineTotal (the (calcItem item)) item)"
    using calculateOrderTotal_sum [of order calcItem] by blast
  have perm: "(\<forall>item\<in>set (items order). \<exists>v. calcItem item = Some v) \<and> within_exact_range calcItem order
        \<and> (\<forall>cs. mset (f cs) = mset cs)
        \<and> (\<forall>item a b. calcItem (item\<lparr>complements := a, orderItemComplements := b\<rparr>) = calcItem item)
        \<longrightarrow> calculateOrderTotal calcItem (rearrangeComplements f order)
              = calculateOrderTotal calcItem order"
    using calculateOrderTotal_rearranged [of order calcItem f] by blast
  have nf: "\<forall>item. \<not> has_length (or_array (pizzaFlavors item) (orderItemPizzaFlavors item)) \<longrightarrow>
          calculateItemPrice_CW item = Some (nullish0 (price item))
          \<and> calculateItemPrice_AB item = Some (nullish0 (price item))"
    using no_flavors_CW no_flavors_AB by blast
  have n0: "nullish0 None = 0" by (simp add: nullish0_def)
  show ?thesis
    using sum perm nf n0 calculateItemPrice_CW_rearranged calculateItemPrice_AB_rearranged
      calculateOrderTotal_CW_def calculateOrderTotal_AB_def
    by blast
qed

lemma example_pizza_price:
  "calculateItemPrice_CW example_pizza = Some 1200" "calculateItemPrice_AB example_pizza = Some 1200"
  by (simp_all add: example_pizza_def calculateItemPrice_CW_def calculateItemPrice_AB_def Let_def
        has_length_def or_array_def or_str_def truthy_str_def math_round_div_def)

lemma example_burger_price:
  "calculateItemPrice_CW example_burger = Some 2000" "calculateItemPrice_AB example_burger = Some 2000"
  by (simp_all add: example_burger_def calculateItemPrice_CW_def calculateItemPrice_AB_def Let_def
        has_length_def or_array_def nullish0_def)

lemma example_lineTotals:
  "lineTotal 1200 example_pizza = 1200" "lineTotal 2000 example_burger = 6900"
  "lineMagnitude 1200 example_pizza = 1200" "lineMagnitude 2000 example_burger = 6900"
  by (simp_all add: lineTotal_def lineMagnitude_def example_pizza_def example_burger_def complements_of_def
        or_array_def nullish0_def)

theorem orderTotal_is_sum_of_lines_witness:
  "items example_order = [example_pizza, example_burger]
   \<and> calculateItemPrice_CW example_pizza = Some 1200
   \<and> calculateItemPrice_CW example_burger = Some 2000
   \<and> within_exact_range calculateItemPrice_CW example_order
   \<and> (\<forall>cs :: Complement list. mset (rev cs) = mset cs)
   \<and> (\<forall>item a b. calculateItemPrice_CW (item\<lparr>complements := a, orderItemComplements := b\<rparr>)
                    = calculateItemPrice_CW item)
   \<and> calculateOrderTotal calculateItemPrice_CW example_order = Some 8100
   \<and> complements_of (items (rearrangeComplements rev example_order) ! 1)
       = [\<lparr>comp_quantity = 1, comp_name = ''Molho'', comp_price = None\<rparr>,
          \<lparr>comp_quantity = 2, comp_name = ''Bacon'', comp_price = Some 150\<rparr>]
   \<and> calculateOrderTotal calculateItemPrice_CW (rearrangeComplements rev example_order) = Some 8100
   \<and> \<not> has_length (or_array (pizzaFlavors example_burger) (orderItemPizzaFlavors example_burger))
   \<and> calculateItemPrice_CW example_burger = Some (nullish0 (price example_burger))
   \<and> calculateItemPrice_AB example_burger = Some (nullish0 (price example_burger))"
proof -
  have perm: "\<forall>cs :: Complement list. mset (rev cs) = mset cs" by simp
  have its: "items example_order = [example_pizza, example_burger]"
    by (simp add: example_order_def)
  have fin: "\<forall>item\<in>set (items example_order). \<exists>v. calculateItemPrice_CW item = Some v"
    by (simp add: its example_pizza_price example_burger_price)
  have range: "within_exact_range calculateItemPrice_CW example_order"
    by (simp add: within_exact_range_def its example_pizza_price example_burger_price
        example_lineTotals)
  have re: "complements_of (items (rearrangeComplements rev example_order) ! 1)
       = [\<lparr>comp_quantity = 1, comp_name = ''Molho'', comp_price = None\<rparr>,
          \<lparr>comp_quantity = 2, comp_name = ''Bacon'', comp_price = Some 150\<rparr>]"
    by (simp add: rearrangeComplements_def its example_burger_def complements_of_def or_array_def)
  have nf: "\<not> has_length (or_array (pizzaFlavors example_burger) (orderItemPizzaFlavors example_burger))"
    by (simp add: example_burger_def or_array_def has_length_def)
  have same: "\<forall>item a b. calculateItemPrice_CW (item\<lparr>complements := a, orderItemComplements := b\<rparr>)
                    = calculateItemPrice_CW item"
    using calculateItemPrice_CW_rearranged by blast
  note th = orderTotal_is_sum_of_lines [of example_order calculateItemPrice_CW rev]
  have "calculateOrderTotal calculateItemPrice_CW example_order
        = Some (\<Sum>item\<leftarrow>items example_order. lineTotal (the (calculateItemPrice_CW item)) item)"
    using th fin range by blast
  then have t: "calculateOrderTotal calculateItemPrice_CW example_order = Some 8100"
    by (simp add: its example_pizza_price example_burger_price example_lineTotals)
  have "calculateOrderTotal calculateItemPrice_CW (rearrangeComplements rev example_order)
        = calculateOrderTotal calculateItemPrice_CW example_order"
    using th fin range perm same by blast
  then have t': "calculateOrderTotal calculateItemPrice_CW (rearrangeComplements rev example_order) = Some 8100"
    using t by simp
  have p: "calculateItemPrice_CW example_burger = Some (nullish0 (price example_burger))
           \<and> calculateItemPrice_AB example_burger = Some (nullish0 (price example_burger))"
    using th nf by blast
  show ?thesis
    using its example_pizza_price(1) example_burger_price(1) range perm same t re t' nf p by blast
qed

text \<open>
  C8 as the claim states it fails outside the exact range. With complements that cost
  \<open>2^53\<close>, 1 and 1 the total is \<open>2^53\<close>, where the sum of the claim is \<open>2^53 + 2\<close>; with
  the same complements in the reverse order the total is \<open>2^53 + 2\<close>.
\<close>

theorem complement_order_changes_total_counterexample:
  "mset (rev (complements_of (items example_large_order ! 0)))
     = mset (complements_of (items example_large_order ! 0))
   \<and> calculateOrderTotal_CW example_large_order = Some 9007199254740992
   \<and> calculateOrderTotal_CW (rearrangeComplements rev example_large_order) = Some 9007199254740994
   \<and> calculateOrderTotal_AB example_large_order = Some 9007199254740992
   \<and> calculateOrderTotal_AB (rearrangeComplements rev example_large_order) = Some 9007199254740994
   \<and> (\<Sum>item\<leftarrow>items example_large_order. lineTotal (the (calculateItemPrice_CW item)) item)
       = 9007199254740994"
  by code_simp

section \<open>Rendering: properties\<close>

text \<open>
  C9. For every order, the message of a status update is the fixed in-production text
  when the status is \<open>in_preparation\<close>, the fixed in-transit text when it is \<open>completed\<close>, and
  the empty text for any other status; the function is total. This holds for the three
  texts of \<open>formatOrderMessage\<close>, whatever the currency formatter.
\<close>

theorem status_update_message:
  "(status order = ''in_preparation'' \<longrightarrow>
      formatOrderMessage_AB fmt order ORDER_STATUS_UPDATED = msg_in_preparation
      \<and> formatOrderMessage_C fmt order ORDER_STATUS_UPDATED = msg_in_preparation
      \<and> formatOrderMessage_W fmt order ORDER_STATUS_UPDATED = msg_in_preparation)
   \<and> (status order = ''completed'' \<longrightarrow>
      formatOrderMessage_AB fmt order ORDER_STATUS_UPDATED = msg_completed
      \<and> formatOrderMessage_C fmt order ORDER_STATUS_UPDATED = msg_completed
      \<and> formatOrderMessage_W fmt order ORDER_STATUS_UPDATED = msg_completed)
   \<and> (status order \<noteq> ''in_preparation'' \<and> status order \<noteq> ''completed'' \<longrightarrow>
      formatOrderMessage_AB fmt order ORDER_STATUS_UPDATED = []
      \<and> formatOrderMessage_C fmt order ORDER_STATUS_UPDATED = []
      \<and> formatOrderMessage_W fmt order ORDER_STATUS_UPDATED = [])"
  by (simp add: formatOrderMessage_AB_def formatOrderMessage_C_def formatOrderMessage_W_def Let_def)

theorem status_update_message_witness:
  "status (example_order\<lparr>status := ''in_preparation''\<rparr>) = ''in_preparation''
   \<and> formatOrderMessage_AB example_fmt (example_order\<lparr>status := ''in_preparation''\<rparr>) ORDER_STATUS_UPDATED
       = msg_in_preparation
   \<and> formatOrderMessage_W example_fmt (example_order\<lparr>status := ''in_preparation''\<rparr>) ORDER_STATUS_UPDATED
       = msg_in_preparation
   \<and> status (example_order\<lparr>status := ''completed''\<rparr>) = ''completed''
   \<and> formatOrderMessage_AB example_fmt (example_order\<lparr>status := ''completed''\<rparr>) ORDER_STATUS_UPDATED
       = msg_completed
   \<and> formatOrderMessage_C example_fmt (example_order\<lparr>status := ''completed''\<rparr>) ORDER_STATUS_UPDATED
       = msg_completed
   \<and> status example_order \<noteq> ''in_preparation'' \<and> status example_order \<noteq> ''completed''
   \<and> formatOrderMessage_AB example_fmt example_order ORDER_STATUS_UPDATED = []
   \<and> formatOrderMessage_C example_fmt example_order ORDER_STATUS_UPDATED = []
   \<and> formatOrderMessage_W example_fmt example_order ORDER_STATUS_UPDATED = []"
proof -
  have st: "status example_order = ''pending''" by (simp add: example_order_def)
  show ?thesis
    using status_update_message [of "example_order\<lparr>status := ''in_preparation''\<rparr>" example_fmt]
      status_update_message [of "example_order\<lparr>status := ''completed''\<rparr>" example_fmt]
      status_update_message [of example_order example_fmt] st
    by simp
qed

text \<open>
  The loops of the three renderers only append: each is the text it starts from followed
  by one block per element.
\<close>

lemma foldl_flavorStep_AB:
  "foldl (flavorStep_AB fr) m fs
   = m @ concat (map (\<lambda>f. nl @ ''           ```'' @ fr @ '' '' @ flavor_name f @ ''```'') fs)"
  by (induction fs arbitrary: m) (simp_all add: flavorStep_AB_def)

lemma foldl_complementStep_AB:
  "foldl complementStep_AB m cs
   = m @ concat (map (\<lambda>c. nl @ ''           ```'' @ quantityPrefix (comp_quantity c) @ comp_name c @ ''```'') cs)"
  by (induction cs arbitrary: m) (simp_all add: complementStep_AB_def)

lemma itemStep_AB_text:
  "itemStep_AB m item
   = m @ glyph_package @ '' ```'' @ quantityPrefix (quantity item) @ item_name item @ ''```''
     @ (case or_array (pizzaFlavors item) (orderItemPizzaFlavors item) of
          Some fs \<Rightarrow>
            if fs = [] then []
            else nl @ ''     _Sabores_''
                 @ concat (map (\<lambda>f. nl @ ''           ```'' @ (''1/'' @ number_to_string (int (length fs)))
                                      @ '' '' @ flavor_name f @ ''```'') fs)
        | None \<Rightarrow> [])
     @ (case orderItemComplements item of
          Some cs \<Rightarrow>
            if cs = [] then []
            else nl @ ''     _Complementos_''
                 @ concat (map (\<lambda>c. nl @ ''           ```'' @ quantityPrefix (comp_quantity c)
                                      @ comp_name c @ ''```'') cs)
        | None \<Rightarrow> [])
     @ (if truthy_str (item_notes item) then nl @ nl @ ''*OBS:* '' @ the (item_notes item) @ nl else [])
     @ nl"
  by (simp add: itemStep_AB_def Let_def foldl_flavorStep_AB foldl_complementStep_AB has_length_def
      split: option.splits)

lemma itemStep_AB_append: "itemStep_AB m item = m @ itemStep_AB [] item"
  by (simp add: itemStep_AB_text [of m] itemStep_AB_text [of "[]"])

lemma foldl_itemStep_AB: "foldl itemStep_AB m xs = m @ concat (map (itemStep_AB []) xs)"
proof (induction xs arbitrary: m)
  case Nil
  then show ?case by simp
next
  case (Cons x xs)
  show ?case by (simp add: Cons.IH itemStep_AB_append [of m x])
qed

lemma foldl_flavorStep_C:
  "foldl (flavorStep_C fr) m fs
   = m @ concat (map (\<lambda>f. ''           ```'' @ fr @ '' '' @ flavor_name f @ ''```'' @ nl) fs)"
  by (induction fs arbitrary: m) (simp_all add: flavorStep_C_def)

lemma foldl_complementStep_C:
  "foldl complementStep_C m cs
   = m @ concat (map (\<lambda>c. ''           ```'' @ quantityPrefix (comp_quantity c) @ comp_name c @ ''```'' @ nl) cs)"
  by (induction cs arbitrary: m) (simp_all add: complementStep_C_def)

lemma itemStep_C_text:
  "itemStep_C m item
   = m @ glyph_package @ '' ```'' @ quantityPrefix (quantity item) @ item_name item @ ''```'' @ nl
     @ (case or_array (pizzaFlavors item) (orderItemPizzaFlavors item) of
          Some fs \<Rightarrow>
            if fs = [] then []
            else ''     _Sabores_'' @ nl
                 @ concat (map (\<lambda>f. ''           ```'' @ (''1/'' @ number_to_string (int (length fs)))
                                      @ '' '' @ flavor_name f @ ''```'' @ nl) fs)
        | None \<Rightarrow> [])
     @ (case orderItemComplements item of
          Some cs \<Rightarrow>
            if cs = [] then []
            else ''     _Complementos_'' @ nl
                 @ concat (map (\<lambda>c. ''           ```'' @ quantityPrefix (comp_quantity c)
                                      @ comp_name c @ ''```'' @ nl) cs)
        | None \<Rightarrow> [])
     @ (if truthy_str (item_notes item) then nl @ ''*OBS:* '' @ the (item_notes item) @ nl else [])
     @ nl"
  by (simp add: itemStep_C_def Let_def foldl_flavorStep_C foldl_complementStep_C has_length_def
      split: option.splits)

lemma itemStep_C_append: "itemStep_C m item = m @ itemStep_C [] item"
  by (simp add: itemStep_C_text [of m] itemStep_C_text [of "[]"])

lemma foldl_itemStep_C: "foldl itemStep_C m xs = m @ concat (map (itemStep_C []) xs)"
proof (induction xs arbitrary: m)
  case Nil
  then show ?case by simp
next
  case (Cons x xs)
  show ?case by (simp add: Cons.IH itemStep_C_append [of m x])
qed

lemma itemStep_W_text:
  "itemStep_W m item
   = m @ glyph_package @ '' ```'' @ quantityPrefix (quantity item) @ item_name item @ ''```'' @ nl
     @ (if truthy_str (item_notes item) then ''*OBS:* '' @ the (item_notes item) @ nl else [])
     @ nl"
  by (simp add: itemStep_W_def Let_def)

lemma itemStep_W_append: "itemStep_W m item = m @ itemStep_W [] item"
  by (simp add: itemStep_W_text [of m] itemStep_W_text [of "[]"])

lemma foldl_itemStep_W: "foldl itemStep_W m xs = m @ concat (map (itemStep_W []) xs)"
proof (induction xs arbitrary: m)
  case Nil
  then show ?case by simp
next
  case (Cons x xs)
  show ?case by (simp add: Cons.IH itemStep_W_append [of m x])
qed

lemma formatOrderMessage_AB_created:
  "formatOrderMessage_AB fmt order ORDER_CREATED
     = header (code order) @ concat (map (itemStep_AB []) (items order))
       @ (if truthy_str (order_notes order) then nl @ ''*OBS:* '' @ the (order_notes order) @ nl else [])
       @ nl @ paymentText_AB fmt order @ nl @ deliveryText_AB order @ nl @ nl
       @ ''Total *'' @ fmt (calculateOrderTotal_AB order) @ ''*'' @ nl @ nl @ closing_AB"
  by (simp add: formatOrderMessage_AB_def Let_def foldl_itemStep_AB)

lemma formatOrderMessage_C_created:
  "formatOrderMessage_C fmt order ORDER_CREATED
     = header (code order) @ concat (map (itemStep_C []) (items order))
       @ (if truthy_str (order_notes order) then ''*OBS:* '' @ the (order_notes order) @ nl @ nl else [])
       @ ''Total *'' @ fmt (calculateOrderTotal_CW order) @ ''*'' @ nl @ nl @ closing_CW"
  by (simp add: formatOrderMessage_C_def Let_def foldl_itemStep_C)

lemma formatOrderMessage_W_created:
  "formatOrderMessage_W fmt order ORDER_CREATED
     = header (code order) @ concat (map (itemStep_W []) (items order))
       @ ''Total *'' @ fmt (calculateOrderTotal_CW order) @ ''*'' @ nl @ nl @ closing_CW"
  by (simp add: formatOrderMessage_W_def Let_def foldl_itemStep_W)

lemma quantityPrefix_cases:
  "quantityPrefix 1 = []" "q > 1 \<Longrightarrow> quantityPrefix q = number_to_string q @ ''x ''"
  by (simp_all add: quantityPrefix_def)

lemma paymentText_AB_default:
  "paymentMethod order \<noteq> ''cash'' \<Longrightarrow> paymentMethod order \<noteq> ''pix''
   \<Longrightarrow> paymentText_AB fmt order = glyph_card @ '' *Cart'' @ a_tilde @ ''o*''"
  by (simp add: paymentText_AB_def)

lemma deliveryText_AB_default:
  "deliveryMethodCode order \<noteq> Some ''delivery'' \<Longrightarrow> deliveryMethodCode order \<noteq> Some ''pickup''
   \<Longrightarrow> deliveryText_AB order = glyph_scooter @ '' *Consumo no local*''"
  by (simp add: deliveryText_AB_def)

text \<open>
  C7, as the code has it. For an \<open>ORDER_CREATED\<close> event the message of \<open>part_000\<close> is: the
  header with the order code; one block per line, made of the package glyph, the name
  with its quantity prefix (empty for quantity 1, \<open>Nx\<close> above 1), a \<open>_Sabores_\<close> block with
  one \<open>1/N\<close> entry per flavor only when the flavor list is not empty, a \<open>_Complementos_\<close>
  block only when \<open>orderItemComplements\<close> is not empty, and the notes when present; the order
  notes when present; a payment line, which is the card phrasing for every method other
  than \<open>cash\<close> and \<open>pix\<close>; a delivery line, which is the dine-in phrasing for every code other
  than \<open>delivery\<close> and \<open>pickup\<close>; the formatted total and the closing line. The message of
  \<open>part_001\<close> has the same blocks per line and the order notes, but neither a payment nor a
  delivery line; the message of \<open>worker.ts\<close> has, per line, only the name and the notes, then
  the total and the closing line.
\<close>

theorem order_created_message:
  "formatOrderMessage_AB fmt order ORDER_CREATED
     = header (code order) @ concat (map (itemStep_AB []) (items order))
       @ (if truthy_str (order_notes order) then nl @ ''*OBS:* '' @ the (order_notes order) @ nl else [])
       @ nl @ paymentText_AB fmt order @ nl @ deliveryText_AB order @ nl @ nl
       @ ''Total *'' @ fmt (calculateOrderTotal_AB order) @ ''*'' @ nl @ nl @ closing_AB
   \<and> itemStep_AB [] item
     = glyph_package @ '' ```'' @ quantityPrefix (quantity item) @ item_name item @ ''```''
       @ (case or_array (pizzaFlavors item) (orderItemPizzaFlavors item) of
            Some fs \<Rightarrow>
              if fs = [] then []
              else nl @ ''     _Sabores_''
                   @ concat (map (\<lambda>f. nl @ ''           ```'' @ (''1/'' @ number_to_string (int (length fs)))
                                        @ '' '' @ flavor_name f @ ''```'') fs)
          | None \<Rightarrow> [])
       @ (case orderItemComplements item of
            Some cs \<Rightarrow>
              if cs = [] then []
              else nl @ ''     _Complementos_''
                   @ concat (map (\<lambda>c. nl @ ''           ```'' @ quantityPrefix (comp_quantity c)
                                        @ comp_name c @ ''```'') cs)
          | None \<Rightarrow> [])
       @ (if truthy_str (item_notes item) then nl @ nl @ ''*OBS:* '' @ the (item_notes item) @ nl else [])
       @ nl
   \<and> quantityPrefix 1 = []
   \<and> (q > 1 \<longrightarrow> quantityPrefix q = number_to_string q @ ''x '')
   \<and> (paymentMethod order \<noteq> ''cash'' \<and> paymentMethod order \<noteq> ''pix''
        \<longrightarrow> paymentText_AB fmt order = glyph_card @ '' *Cart'' @ a_tilde @ ''o*'')
   \<and> (deliveryMethodCode order \<noteq> Some ''delivery'' \<and> deliveryMethodCode order \<noteq> Some ''pickup''
        \<longrightarrow> deliveryText_AB order = glyph_scooter @ '' *Consumo no local*'')
   \<and> formatOrderMessage_C fmt order ORDER_CREATED
     = header (code order) @ concat (map (itemStep_C []) (items order))
       @ (if truthy_str (order_notes order) then ''*OBS:* '' @ the (order_notes order) @ nl @ nl else [])
       @ ''Total *'' @ fmt (calculateOrderTotal_CW order) @ ''*'' @ nl @ nl @ closing_CW
   \<and> itemStep_C [] item
     = glyph_package @ '' ```'' @ quantityPrefix (quantity item) @ item_name item @ ''```'' @ nl
       @ (case or_array (pizzaFlavors item) (orderItemPizzaFlavors item) of
            Some fs \<Rightarrow>
              if fs = [] then []
              else ''     _Sabores_'' @ nl
                   @ concat (map (\<lambda>f. ''           ```'' @ (''1/'' @ number_to_string (int (length fs)))
                                        @ '' '' @ flavor_name f @ ''```'' @ nl) fs)
          | None \<Rightarrow> [])
       @ (case orderItemComplements item of
            Some cs \<Rightarrow>
              if cs = [] then []
              else ''     _Complementos_'' @ nl
                   @ concat (map (\<lambda>c. ''           ```'' @ quantityPrefix (comp_quantity c)
                                        @ comp_name c @ ''```'' @ nl) cs)
          | None \<Rightarrow> [])
       @ (if truthy_str (item_notes item) then nl @ ''*OBS:* '' @ the (item_notes item) @ nl else [])
       @ nl
   \<and> formatOrderMessage_W fmt order ORDER_CREATED
     = header (code order) @ concat (map (itemStep_W []) (items order))
       @ ''Total *'' @ fmt (calculateOrderTotal_CW order) @ ''*'' @ nl @ nl @ closing_CW
   \<and> itemStep_W [] item
     = glyph_package @ '' ```'' @ quantityPrefix (quantity item) @ item_name item @ ''```'' @ nl
       @ (if truthy_str (item_notes item) then ''*OBS:* '' @ the (item_notes item) @ nl else [])
       @ nl"
  using formatOrderMessage_AB_created [of fmt order] itemStep_AB_text [of "[]" item, unfolded append_Nil]
    quantityPrefix_cases(1) quantityPrefix_cases(2) [of q]
    paymentText_AB_default [of order fmt] deliveryText_AB_default [of order]
    formatOrderMessage_C_created [of fmt order] itemStep_C_text [of "[]" item, unfolded append_Nil]
    formatOrderMessage_W_created [of fmt order] itemStep_W_text [of "[]" item, unfolded append_Nil]
  by blast

theorem order_created_message_witness:
  "(3::int) > 1 \<and> quantityPrefix 3 = number_to_string 3 @ ''x ''
   \<and> paymentMethod example_voucher_order \<noteq> ''cash'' \<and> paymentMethod example_voucher_order \<noteq> ''pix''
   \<and> paymentText_AB example_fmt example_voucher_order = glyph_card @ '' *Cart'' @ a_tilde @ ''o*''
   \<and> deliveryMethodCode example_voucher_order \<noteq> Some ''delivery''
   \<and> deliveryMethodCode example_voucher_order \<noteq> Some ''pickup''
   \<and> deliveryText_AB example_voucher_order = glyph_scooter @ '' *Consumo no local*''
   \<and> formatOrderMessage_AB example_fmt example_voucher_order ORDER_CREATED
     = header 42 @ glyph_package @ '' ```Pizza```'' @ nl @ ''     _Sabores_'' @ nl
       @ ''           ```1/2 Calabresa```'' @ nl @ ''           ```1/2 Marguerita```'' @ nl
       @ glyph_package @ '' ```3x Burger```'' @ nl @ ''     _Complementos_'' @ nl
       @ ''           ```2x Bacon```'' @ nl @ ''           ```Molho```'' @ nl @ nl
       @ ''*OBS:* sem cebola'' @ nl @ nl
       @ nl @ glyph_card @ '' *Cart'' @ a_tilde @ ''o*'' @ nl @ glyph_scooter @ '' *Consumo no local*''
       @ nl @ nl @ ''Total *R$ 81,00*'' @ nl @ nl @ closing_AB"
proof -
  have h1: "(3::int) > 1" by simp
  have h2: "paymentMethod example_voucher_order \<noteq> ''cash'' \<and> paymentMethod example_voucher_order \<noteq> ''pix''"
    by (simp add: example_voucher_order_def)
  have h3: "deliveryMethodCode example_voucher_order \<noteq> Some ''delivery''
            \<and> deliveryMethodCode example_voucher_order \<noteq> Some ''pickup''"
    by (simp add: example_voucher_order_def)
  have full: "formatOrderMessage_AB example_fmt example_voucher_order ORDER_CREATED
     = header 42 @ glyph_package @ '' ```Pizza```'' @ nl @ ''     _Sabores_'' @ nl
       @ ''           ```1/2 Calabresa```'' @ nl @ ''           ```1/2 Marguerita```'' @ nl
       @ glyph_package @ '' ```3x Burger```'' @ nl @ ''     _Complementos_'' @ nl
       @ ''           ```2x Bacon```'' @ nl @ ''           ```Molho```'' @ nl @ nl
       @ ''*OBS:* sem cebola'' @ nl @ nl
       @ nl @ glyph_card @ '' *Cart'' @ a_tilde @ ''o*'' @ nl @ glyph_scooter @ '' *Consumo no local*''
       @ nl @ nl @ ''Total *R$ 81,00*'' @ nl @ nl @ closing_AB"
    by code_simp
  show ?thesis
    using order_created_message [of example_fmt example_voucher_order example_pizza 3] h1 h2 h3 full
    by blast
qed

text \<open>
  C7 as the claim states it fails on \<open>worker.ts\<close>: for the example order, whose first line
  has two flavors, whose second line has two complements and whose payment method is
  unknown, the message names no flavor block, no complement block, no card phrasing and
  no delivery line.
\<close>

theorem order_created_message_W_counterexample:
  "has_length (pizzaFlavors (items example_voucher_order ! 0))
   \<and> has_length (orderItemComplements (items example_voucher_order ! 1))
   \<and> \<not> includes_str (formatOrderMessage_W example_fmt example_voucher_order ORDER_CREATED) ''_Sabores_''
   \<and> \<not> includes_str (formatOrderMessage_W example_fmt example_voucher_order ORDER_CREATED) ''_Complementos_''
   \<and> \<not> includes_str (formatOrderMessage_W example_fmt example_voucher_order ORDER_CREATED)
         (''*Cart'' @ a_tilde @ ''o*'')
   \<and> \<not> includes_str (formatOrderMessage_W example_fmt example_voucher_order ORDER_CREATED)
         ''*Consumo no local*''
   \<and> formatOrderMessage_W example_fmt example_voucher_order ORDER_CREATED
     = header 42 @ glyph_package @ '' ```Pizza```'' @ nl @ nl
       @ glyph_package @ '' ```3x Burger```'' @ nl @ ''*OBS:* sem cebola'' @ nl @ nl
       @ ''Total *R$ 81,00*'' @ nl @ nl @ closing_CW"
  by code_simp

section \<open>The transient-error test: properties\<close>

text \<open>\<open>includes_str\<close> is the substring relation.\<close>

lemma includes_str_sublist: "includes_str s t \<longleftrightarrow> sublist t s"
  by (induction s) (auto simp: sublist_Cons_right)

lemma fold_ascii_case_Nil: "fold_ascii_case [] = []"
  by (simp add: fold_ascii_case_def)

lemma isTemporaryProviderError_W_iff:
  "isTemporaryProviderError_W e \<longleftrightarrow>
     err_code e = Some ''ECONNRESET'' \<or> err_code e = Some ''ETIMEDOUT'' \<or> err_code e = Some ''EPIPE''
     \<or> (\<exists>st. response_status e = Some st \<and> st \<ge> 500)"
  by (auto simp: isTemporaryProviderError_W_def split: option.splits)

lemma message_markers_AB_iff:
  "message_markers_AB e \<longleftrightarrow>
     (\<exists>m. err_message e = Some m
          \<and> (sublist ''timeout'' (toLowerCase m) \<or> sublist ''temporarily unavailable'' (toLowerCase m)
             \<or> sublist ''network'' (toLowerCase m)))"
  by (auto simp: message_markers_AB_def Let_def includes_str_sublist split: option.splits)

lemma isTemporaryProviderError_A_iff:
  "isTemporaryProviderError_A e \<longleftrightarrow>
     err_name e = ''FetchError'' \<or> err_code e = Some ''ECONNRESET'' \<or> err_code e = Some ''ETIMEDOUT''
     \<or> (\<exists>st. err_status e = Some st \<and> st \<ge> 500)
     \<or> message_markers_AB e"
  by (auto simp: isTemporaryProviderError_A_def split: option.splits)

lemma isTemporaryProviderError_B_iff:
  "isTemporaryProviderError_B e \<longleftrightarrow>
     err_name e = ''FetchError'' \<or> err_code e = Some ''ECONNRESET'' \<or> err_code e = Some ''ETIMEDOUT''
     \<or> (\<exists>st. err_status e = Some st \<and> st \<ge> 500)
     \<or> (err_status e = None \<and> (\<exists>st. response_status e = Some st \<and> st \<ge> 500))
     \<or> message_markers_AB e"
  by (auto simp: isTemporaryProviderError_B_def Let_def split: option.splits)

lemma isTemporaryProviderError_C_iff:
  "isTemporaryProviderError_C e \<longleftrightarrow>
     err_code e = Some ''ECONNRESET'' \<or> err_code e = Some ''ETIMEDOUT''
     \<or> (\<exists>st. err_status e = Some st \<and> st \<ge> 500)
     \<or> (err_status e = None \<and> (\<exists>st. response_status e = Some st \<and> st \<ge> 500))
     \<or> (\<exists>m. err_message e = Some m
          \<and> (sublist ''timeout'' (fold_ascii_case m) \<or> sublist ''network'' (fold_ascii_case m)
             \<or> sublist ''temporarily'' (fold_ascii_case m)))"
  by (auto simp: isTemporaryProviderError_C_def Let_def includes_str_sublist fold_ascii_case_Nil
      split: option.splits)

text \<open>
  The two case foldings differ on the Kelvin sign: \<open>NETWOR\<close> followed by U+212A is
  \<open>network\<close> after \<open>toLowerCase\<close>, a temporary error for \<open>part_000\<close>, and no match for the
  regular expression of \<open>part_001\<close>.
\<close>

lemma kelvin_sign_message:
  "toLowerCase (''NETWOR'' @ [CHR 0xE2, CHR 0x84, CHR 0xAA]) = ''network''"
  "isTemporaryProviderError_B (new_Error (''NETWOR'' @ [CHR 0xE2, CHR 0x84, CHR 0xAA]))"
  "\<not> isTemporaryProviderError_C (new_Error (''NETWOR'' @ [CHR 0xE2, CHR 0x84, CHR 0xAA]))"
  by code_simp+

text \<open>
  C2, as the code has it. \<open>isTemporaryProviderError\<close> has two outcomes, not three: no
  revision's test singles out a 404, which the processors of \<open>part_000\<close> (second module)
  and \<open>part_001\<close> compare themselves before they call it. In \<open>part_000\<close> (second module) it
  holds exactly when the name is \<open>FetchError\<close>, or the code is \<open>ECONNRESET\<close> or
  \<open>ETIMEDOUT\<close>, or the status (the error's own, else the response's) is at least 500, or the
  lower-cased message contains \<open>timeout\<close>, \<open>temporarily unavailable\<close> or \<open>network\<close>. In
  \<open>worker.ts\<close> it holds exactly when the code is \<open>ECONNRESET\<close>, \<open>ETIMEDOUT\<close> or \<open>EPIPE\<close> or
  the response status is at least 500; the message is not read. The first module of
  \<open>part_000\<close> reads only the error's own status, and \<open>part_001\<close> has no \<open>FetchError\<close> case
  and matches \<open>temporarily\<close> alone, through a regular expression that folds the case of
  ASCII letters only.
\<close>

theorem transient_error_test:
  "(isTemporaryProviderError_B e \<longleftrightarrow>
      err_name e = ''FetchError'' \<or> err_code e = Some ''ECONNRESET'' \<or> err_code e = Some ''ETIMEDOUT''
      \<or> (\<exists>st. err_status e = Some st \<and> st \<ge> 500)
      \<or> (err_status e = None \<and> (\<exists>st. response_status e = Some st \<and> st \<ge> 500))
      \<or> (\<exists>m. err_message e = Some m
           \<and> (sublist ''timeout'' (toLowerCase m) \<or> sublist ''temporarily unavailable'' (toLowerCase m)
              \<or> sublist ''network'' (toLowerCase m))))
   \<and> (isTemporaryProviderError_W e \<longleftrightarrow>
        err_code e = Some ''ECONNRESET'' \<or> err_code e = Some ''ETIMEDOUT'' \<or> err_code e = Some ''EPIPE''
        \<or> (\<exists>st. response_status e = Some st \<and> st \<ge> 500))
   \<and> (isTemporaryProviderError_A e \<longleftrightarrow>
        err_name e = ''FetchError'' \<or> err_code e = Some ''ECONNRESET'' \<or> err_code e = Some ''ETIMEDOUT''
        \<or> (\<exists>st. err_status e = Some st \<and> st \<ge> 500)
        \<or> (\<exists>m. err_message e = Some m
             \<and> (sublist ''timeout'' (toLowerCase m) \<or> sublist ''temporarily unavailable'' (toLowerCase m)
                \<or> sublist ''network'' (toLowerCase m))))
   \<and> (isTemporaryProviderError_C e \<longleftrightarrow>
        err_code e = Some ''ECONNRESET'' \<or> err_code e = Some ''ETIMEDOUT''
        \<or> (\<exists>st. err_status e = Some st \<and> st \<ge> 500)
        \<or> (err_status e = None \<and> (\<exists>st. response_status e = Some st \<and> st \<ge> 500))
        \<or> (\<exists>m. err_message e = Some m
             \<and> (sublist ''timeout'' (fold_ascii_case m) \<or> sublist ''network'' (fold_ascii_case m)
                \<or> sublist ''temporarily'' (fold_ascii_case m))))"
  using isTemporaryProviderError_B_iff [of e] isTemporaryProviderError_W_iff [of e]
    isTemporaryProviderError_A_iff [of e] isTemporaryProviderError_C_iff [of e]
    message_markers_AB_iff [of e]
  by blast

lemma status_of_http_error:
  "err_status (sendMessage_B (http_error st)) = Some st"
  "response_status (http_error st) = Some st"
  "err_code (http_error st) \<noteq> Some ''ECONNRESET''"
  "err_code (http_error st) \<noteq> Some ''ETIMEDOUT''"
  "err_code (http_error st) \<noteq> Some ''EPIPE''"
  by (simp_all add: sendMessage_B_def http_error_def response_status_def new_Error_def Let_def)

theorem transient_error_test_witness:
  "err_status (sendMessage_B (http_error 503)) = Some 503
   \<and> isTemporaryProviderError_B (sendMessage_B (http_error 503))
   \<and> response_status (http_error 503) = Some 503
   \<and> isTemporaryProviderError_W (http_error 503)
   \<and> response_status (http_error 400) = Some 400
   \<and> \<not> isTemporaryProviderError_W (http_error 400)"
  using transient_error_test [of "sendMessage_B (http_error 503)"]
    transient_error_test [of "http_error 503"] transient_error_test [of "http_error 400"]
    status_of_http_error [of 503] status_of_http_error [of 400]
  by simp

text \<open>
  C2 as the claim states it fails on \<open>worker.ts\<close>: an axios timeout, whose message
  contains \<open>timeout\<close>, is not a temporary error there, while the tests of the three other
  revisions hold of it.
\<close>

theorem timeout_not_temporary_W_counterexample:
  "includes_str (toLowerCase (message_text timeout_error)) ''timeout''
   \<and> \<not> isTemporaryProviderError_W (sendMessage_W timeout_error)
   \<and> isTemporaryProviderError_A (sendMessage_A timeout_error)
   \<and> isTemporaryProviderError_B (sendMessage_B timeout_error)
   \<and> isTemporaryProviderError_C timeout_error"
  by code_simp

section \<open>The job processor: properties\<close>

lemma bit_length_gt: "2 ^ k \<le> n \<Longrightarrow> k < bit_length n"
proof (induction k arbitrary: n)
  case 0
  then show ?case by (simp add: bit_length.simps [of n])
next
  case (Suc k)
  have pos: "\<not> n \<le> 0"
  proof
    assume "n \<le> 0"
    moreover have "(0::int) < 2 ^ Suc k" by simp
    ultimately show False using Suc.prems by linarith
  qed
  have "2 ^ k \<le> n div 2" using Suc.prems by simp
  then have "k < bit_length (n div 2)" by (rule Suc.IH)
  then show ?case using pos by (simp add: bit_length.simps [of n])
qed

lemma bit_length_eq: "2 ^ k \<le> n \<Longrightarrow> n < 2 ^ Suc k \<Longrightarrow> bit_length n = Suc k"
  using bit_length_gt [of k n] bit_length_le [of n "Suc k"] by simp

lemma rne_lower: "of_int a \<le> x \<Longrightarrow> a \<le> rne x"
proof -
  assume "of_int a \<le> x"
  then have "a \<le> \<lfloor>x\<rfloor>" by (simp add: le_floor_iff)
  then show ?thesis by (simp add: rne_def Let_def)
qed

lemma rne_upper: "x \<le> of_int b \<Longrightarrow> rne x \<le> b"
proof -
  assume h: "x \<le> of_int b"
  then have f: "\<lfloor>x\<rfloor> \<le> b" by (simp add: floor_le_iff)
  show ?thesis
  proof (cases "x = of_int \<lfloor>x\<rfloor>")
    case True
    then have "x - of_int \<lfloor>x\<rfloor> = 0" by simp
    then show ?thesis using f by (simp add: rne_def Let_def)
  next
    case False
    moreover have "of_int \<lfloor>x\<rfloor> \<le> x" by (rule of_int_floor_le)
    ultimately have "of_int \<lfloor>x\<rfloor> < x" by linarith
    with h have "of_int \<lfloor>x\<rfloor> < (of_int b :: real)" by linarith
    then have "\<lfloor>x\<rfloor> < b" by simp
    then show ?thesis by (simp add: rne_def Let_def)
  qed
qed

text \<open>
  Rounding keeps a number between the integers around it: below \<open>2^53\<close> every integer is
  a multiple of the spacing of the doubles.
\<close>

lemma round_double_between:
  assumes "0 \<le> z" and "of_int a \<le> z" and "z \<le> of_int b" and "b < 2 ^ 53"
  shows "\<exists>r. round_double z = Some r \<and> of_int a \<le> r \<and> r \<le> of_int b"
proof -
  define s where "s = bit_length \<lfloor>\<bar>z\<bar> * 2 ^ 1074\<rfloor> - 53"
  have b53: "(of_int b :: real) < 2 ^ 53" using assms(4) by (metis of_int_less_iff of_int_numeral of_int_power)
  have z53: "z < 2 ^ 53" using assms(3) b53 by linarith
  have "\<bar>z\<bar> * 2 ^ 1074 < 2 ^ 53 * 2 ^ 1074" using assms(1) z53 by simp
  then have "\<bar>z\<bar> * 2 ^ 1074 < 2 ^ (53 + 1074)" by (simp only: power_add)
  then have "\<lfloor>\<bar>z\<bar> * 2 ^ 1074\<rfloor> < 2 ^ (53 + 1074)" by (simp only: floor_less_iff of_int_power of_int_numeral)
  then have "bit_length \<lfloor>\<bar>z\<bar> * 2 ^ 1074\<rfloor> \<le> 53 + 1074" by (rule bit_length_le)
  then have s: "s \<le> 1074" by (simp add: s_def)
  define k where "k = 1074 - s"
  define u :: real where "u = 2 ^ s / 2 ^ 1074"
  have sk: "1074 = s + k" using s by (simp add: k_def)
  have u: "u * 2 ^ k = 1" unfolding u_def sk by (simp add: power_add)
  have upos: "0 < u" by (simp add: u_def)
  have q: "\<bar>z\<bar> / u = z * 2 ^ k"
  proof -
    have "z * 2 ^ k = z * 2 ^ k * (u / u)" using upos by simp
    also have "\<dots> = z * (u * 2 ^ k) / u" by (simp add: mult.commute)
    finally show ?thesis using assms(1) by (simp add: u)
  qed
  have lo: "a * 2 ^ k \<le> rne (z * 2 ^ k)"
    by (rule rne_lower) (use assms(2) in simp)
  have hi: "rne (z * 2 ^ k) \<le> b * 2 ^ k"
    by (rule rne_upper) (use assms(3) in simp)
  define r where "r = of_int (rne (z * 2 ^ k)) * u"
  have rlo: "of_int a \<le> r"
  proof -
    have "(of_int (a * 2 ^ k) :: real) \<le> of_int (rne (z * 2 ^ k))" using lo by (simp only: of_int_le_iff)
    then have "of_int (a * 2 ^ k) * u \<le> of_int (rne (z * 2 ^ k)) * u" using upos by simp
    moreover have "of_int (a * 2 ^ k) * u = of_int a * (u * 2 ^ k)" by (simp add: ac_simps)
    then have "of_int (a * 2 ^ k) * u = of_int a" by (simp only: u mult_1_right)
    ultimately show ?thesis unfolding r_def by linarith
  qed
  have rhi: "r \<le> of_int b"
  proof -
    have "(of_int (rne (z * 2 ^ k)) :: real) \<le> of_int (b * 2 ^ k)" using hi by (simp only: of_int_le_iff)
    then have "of_int (rne (z * 2 ^ k)) * u \<le> of_int (b * 2 ^ k) * u" using upos by simp
    moreover have "of_int (b * 2 ^ k) * u = of_int b * (u * 2 ^ k)" by (simp add: ac_simps)
    then have "of_int (b * 2 ^ k) * u = of_int b" by (simp only: u mult_1_right)
    ultimately show ?thesis unfolding r_def by linarith
  qed
  have "(2::real) ^ 53 < 2 ^ 1024" by (rule power_strict_increasing) simp_all
  then have fin: "\<not> r \<ge> 2 ^ 1024" using rhi b53 by linarith
  have "round_double z = Some (sgn z * r)"
    using fin unfolding round_double_def Let_def s_def [symmetric] u_def [symmetric] q r_def [symmetric]
    by simp
  moreover have "sgn z * r = r"
  proof (cases "z = 0")
    case True
    then have "r = 0" by (simp add: r_def rne_def)
    then show ?thesis by simp
  next
    case False
    then have "0 < z" using assms(1) by simp
    then show ?thesis by simp
  qed
  ultimately show ?thesis using rlo rhi by simp
qed

lemma round_double_int:
  assumes "0 \<le> i" and "i < 2 ^ 53"
  shows "round_double (of_int i) = Some (of_int i)"
proof -
  obtain r where "round_double (of_int i) = Some r" "of_int i \<le> r" "r \<le> of_int i"
    using round_double_between [of "of_int i" i i] assms by auto
  then show ?thesis by simp
qed

text \<open>The rounding of a number whose binade is known.\<close>

lemma round_double_in_binade:
  assumes lo: "2 ^ e \<le> z" and hi: "z < 2 ^ Suc e" and e: "e \<le> 52"
  shows "round_double z = Some (of_int (rne (z * 2 ^ (52 - e))) / 2 ^ (52 - e))"
proof -
  have zpos: "0 < z" using lo by (meson less_le_trans zero_less_numeral zero_less_power)
  have az: "\<bar>z\<bar> = z" using zpos by simp
  have "(2::real) ^ (e + 1074) \<le> z * 2 ^ 1074" using lo by (simp add: power_add)
  then have l: "2 ^ (e + 1074) \<le> \<lfloor>z * 2 ^ 1074\<rfloor>"
    by (simp only: le_floor_iff of_int_power of_int_numeral)
  have "z * 2 ^ 1074 < 2 ^ Suc (e + 1074)" using hi by (simp add: power_add)
  then have h: "\<lfloor>z * 2 ^ 1074\<rfloor> < 2 ^ Suc (e + 1074)"
    by (simp only: floor_less_iff of_int_power of_int_numeral)
  have bl: "bit_length \<lfloor>z * 2 ^ 1074\<rfloor> - 53 = e + 1022"
    using bit_length_eq [OF l h] by simp
  define k where "k = 52 - e"
  have ek: "1074 = (e + 1022) + k" using e by (simp add: k_def)
  define u :: real where "u = 2 ^ (e + 1022) / 2 ^ 1074"
  have u: "u = 1 / 2 ^ k" unfolding u_def ek by (simp add: power_add)
  have q: "z / u = z * 2 ^ k" by (simp add: u)
  define r where "r = of_int (rne (z * 2 ^ k)) / (2 ^ k :: real)"
  have "rne (z * 2 ^ k) \<le> 2 ^ Suc e * 2 ^ k"
    by (rule rne_upper) (use hi in simp)
  then have "(of_int (rne (z * 2 ^ k)) :: real) \<le> of_int (2 ^ Suc e * 2 ^ k)" by (simp only: of_int_le_iff)
  then have "r \<le> 2 ^ Suc e" by (simp add: r_def divide_le_eq)
  moreover have "(2::real) ^ Suc e < 2 ^ 1024" by (rule power_strict_increasing) (use e in simp_all)
  ultimately have fin: "\<not> r \<ge> 2 ^ 1024" by linarith
  have req: "of_int (rne (z * 2 ^ k)) * u = r" by (simp add: r_def u)
  show ?thesis
    using fin zpos unfolding round_double_def Let_def az bl u_def [symmetric] q req k_def [symmetric] r_def [symmetric]
    by simp
qed

lemma round_double_below_one:
  assumes lo: "1 / 2 \<le> z" and hi: "z < 1"
  shows "round_double z = Some (of_int (rne (z * 2 ^ 53)) / 2 ^ 53)"
proof -
  have zpos: "0 < z" using lo by simp
  have az: "\<bar>z\<bar> = z" using zpos by simp
  have "(2::real) ^ 1073 * 2 = 2 ^ 1074" by simp
  then have "(2::real) ^ 1073 \<le> z * 2 ^ 1074" using lo by (simp add: field_simps)
  then have l: "2 ^ 1073 \<le> \<lfloor>z * 2 ^ 1074\<rfloor>"
    by (simp only: le_floor_iff of_int_power of_int_numeral)
  have "z * 2 ^ 1074 < 2 ^ Suc 1073" using hi by simp
  then have h: "\<lfloor>z * 2 ^ 1074\<rfloor> < 2 ^ Suc 1073"
    by (simp only: floor_less_iff of_int_power of_int_numeral)
  have bl: "bit_length \<lfloor>z * 2 ^ 1074\<rfloor> - 53 = 1021"
    using bit_length_eq [OF l h] by simp
  define u :: real where "u = 2 ^ 1021 / 2 ^ 1074"
  have "(2::real) ^ 1074 = 2 ^ 1021 * 2 ^ 53" by (simp only: power_add [symmetric]) simp
  then have u: "u = 1 / 2 ^ 53" unfolding u_def by simp
  have q: "z / u = z * 2 ^ 53" by (simp add: u)
  define r where "r = of_int (rne (z * 2 ^ 53)) / (2 ^ 53 :: real)"
  have "rne (z * 2 ^ 53) \<le> 2 ^ 53"
    by (rule rne_upper) (use hi in simp)
  then have "(of_int (rne (z * 2 ^ 53)) :: real) \<le> of_int (2 ^ 53)" by (simp only: of_int_le_iff)
  then have "r \<le> 1" by (simp add: r_def divide_le_eq)
  moreover have "(1::real) < 2 ^ 1024" by simp
  ultimately have fin: "\<not> r \<ge> 2 ^ 1024" by linarith
  have req: "of_int (rne (z * 2 ^ 53)) * u = r" by (simp add: r_def u)
  show ?thesis
    using fin zpos unfolding round_double_def Let_def az bl u_def [symmetric] q req r_def [symmetric]
    by simp
qed

lemma largest_random_is_double: "round_double (1 - 1 / 2 ^ 53) = Some (1 - 1 / 2 ^ 53)"
proof -
  have "rne ((1 - 1 / 2 ^ 53) * 2 ^ 53) = 2 ^ 53 - 1"
    by (simp add: rne_def Let_def)
  then show ?thesis
    using round_double_below_one [of "1 - 1 / 2 ^ 53"] by simp
qed

lemma delay_reaches_120000:
  "js_add (Some 60000) (js_mul (Some (1 - 1 / 2 ^ 53)) (Some 60000)) = Some 120000"
proof -
  have "rne ((1 - 1 / 2 ^ 53) * 60000 * 2 ^ 37) = 60000 * 2 ^ 37 - 1"
    by (simp add: rne_def Let_def)
  then have m: "round_double ((1 - 1 / 2 ^ 53) * 60000) = Some (60000 - 1 / 2 ^ 37)"
    using round_double_in_binade [of 15 "(1 - 1 / 2 ^ 53) * 60000"] by simp
  have "rne ((60000 + (60000 - 1 / 2 ^ 37)) * 2 ^ 36) = 120000 * 2 ^ 36"
    by (simp add: rne_def Let_def)
  then have a: "round_double (60000 + (60000 - 1 / 2 ^ 37)) = Some 120000"
    using round_double_in_binade [of 16 "60000 + (60000 - 1 / 2 ^ 37)"] by simp
  have "js_mul (Some (1 - 1 / 2 ^ 53)) (Some 60000) = Some (60000 - 1 / 2 ^ 37)"
    unfolding js_mul_def option.case by (rule m)
  then show ?thesis
    unfolding js_add_def option.case by (simp only: option.case a)
qed

lemma delay_bounds:
  assumes "0 \<le> random" and "random < 1"
  shows "\<exists>delay. js_add (Some 60000) (js_mul (Some random) (Some 60000)) = Some delay
                 \<and> 60000 \<le> delay \<and> delay \<le> 120000"
proof -
  have z: "0 \<le> random * 60000" "random * 60000 \<le> 60000" using assms by simp_all
  obtain y where y: "round_double (random * 60000) = Some y" "0 \<le> y" "y \<le> 60000"
    using round_double_between [of "random * 60000" 0 60000] z by auto
  obtain d where d: "round_double (60000 + y) = Some d" "60000 \<le> d" "d \<le> 120000"
    using round_double_between [of "60000 + y" 60000 120000] y by auto
  show ?thesis using y d by (simp add: js_add_def js_mul_def)
qed

lemma timestamp_bounds:
  assumes "60000 \<le> delay" and "delay \<le> 120000" and "0 \<le> n" and "n + 120000 < 2 ^ 53"
  shows "\<exists>t. js_add (Some (of_int n)) (Some delay) = Some t
             \<and> of_int n + 60000 \<le> t \<and> t \<le> of_int n + 120000"
proof -
  obtain t where "round_double (of_int n + delay) = Some t" "of_int (n + 60000) \<le> t"
      "t \<le> of_int (n + 120000)"
    using round_double_between [of "of_int n + delay" "n + 60000" "n + 120000"] assms by auto
  then show ?thesis by (simp add: js_add_def)
qed


lemma sends_simps:
  "sends [] = []" "sends (Log s # es) = sends es" "sends (UpdateProgress s # es) = sends es"
  "sends (MoveToDelayed t # es) = sends es" "sends (MoveToFailed e s # es) = sends es"
  "sends (HttpGet i # es) = sends es" "sends (HttpPost i n m # es) = HttpPost i n m # sends es"
  by (simp_all add: sends_def)

lemma delays_simps:
  "delays [] = []" "delays (Log s # es) = delays es" "delays (UpdateProgress s # es) = delays es"
  "delays (MoveToDelayed t # es) = t # delays es" "delays (MoveToFailed e s # es) = delays es"
  "delays (HttpGet i # es) = delays es" "delays (HttpPost i n m # es) = delays es"
  by (simp_all add: delays_def)

lemma startLog_AB_is_Log: "\<exists>s. startLog_AB job = Log s"
  by (simp add: startLog_AB_def)

lemma notReadyLog_AB_is_Log: "\<exists>s. notReadyLog_AB job = Log s"
  by (simp add: notReadyLog_AB_def)

lemma not_open_AB:
  "d \<noteq> InstanceState (Some ''open'') \<Longrightarrow>
   (case d of InstanceState st \<Rightarrow> \<not> truthy_str st \<or> st \<noteq> Some ''open'' | _ \<Rightarrow> True)"
  by (cases d) (auto simp: truthy_str_def)

lemma not_open_C:
  "d \<noteq> InstanceState (Some ''open'') \<Longrightarrow>
   (case d of InstanceState st \<Rightarrow> st \<noteq> Some ''open'' | _ \<Rightarrow> True)"
  by (cases d) auto

lemma open_AB:
  "\<not> (case InstanceState (Some ''open'') of InstanceState st \<Rightarrow> \<not> truthy_str st \<or> st \<noteq> Some ''open'' | _ \<Rightarrow> True)"
  by (simp add: truthy_str_def)

lemma processOrderMessage_A_not_ready:
  assumes "d \<noteq> InstanceState (Some ''open'')" and "d \<noteq> NoInstance"
  shows "processOrderMessage_A fmt job (Inr d) post random now
         = ([startLog_AB job, HttpGet (evolutionInstance job), notReadyLog_AB job,
             UpdateProgress ''waiting_instance'',
             MoveToDelayed (js_add (Some now) (js_add (Some 60000) (js_mul (Some random) (Some 60000))))],
            Returned)"
  using assms not_open_AB [OF assms(1)]
  by (cases d) (simp_all add: processOrderMessage_A_def Let_def)

lemma processOrderMessage_B_not_ready:
  assumes "d \<noteq> InstanceState (Some ''open'')" and "d \<noteq> NoInstance"
  shows "processOrderMessage_B fmt job (Inr d) post
         = ([startLog_AB job, HttpGet (evolutionInstance job), notReadyLog_AB job],
            Threw ((new_Error ''Evolution instance not ready'')\<lparr>err_status := Some 503\<rparr>))"
  using assms not_open_AB [OF assms(1)]
  by (cases d) (simp_all add: processOrderMessage_B_def Let_def)

lemma processOrderMessage_C_not_ready:
  assumes "d \<noteq> InstanceState (Some ''open'')"
  shows "\<exists>s. processOrderMessage_C fmt job (Inr d) post
         = ([Log s, HttpGet (evolutionInstance job)],
            Threw ((new_Error ''Evolution instance not ready'')\<lparr>err_status := Some 503\<rparr>))"
  using not_open_C [OF assms]
  by (simp add: processOrderMessage_C_def Let_def)

lemma processOrderMessage_AB_no_instance:
  "processOrderMessage_A fmt job (Inr NoInstance) post random now
     = ([startLog_AB job, HttpGet (evolutionInstance job)], Threw state_TypeError)"
  "processOrderMessage_B fmt job (Inr NoInstance) post
     = ([startLog_AB job, HttpGet (evolutionInstance job)], Threw state_TypeError)"
  by (simp_all add: processOrderMessage_A_def processOrderMessage_B_def Let_def)

lemma not_ready_error_temporary:
  "isTemporaryProviderError_B ((new_Error ''Evolution instance not ready'')\<lparr>err_status := Some 503\<rparr>)"
  "isTemporaryProviderError_C ((new_Error ''Evolution instance not ready'')\<lparr>err_status := Some 503\<rparr>)"
  by (simp_all add: isTemporaryProviderError_B_def isTemporaryProviderError_C_def new_Error_def Let_def)

text \<open>
  C1, as the code has it. The answer to the connection-state request is anything but a
  body whose \<open>instance.state\<close> is \<open>open\<close>. No revision sends.

  When the answer has no body, or an \<open>instance\<close> whose state is absent or not \<open>open\<close>: the
  first module of \<open>part_000\<close> logs, sets the progress, moves the job to the delayed set
  exactly once and returns. The delay is the binary64 result of
  \<open>60000 + Math.random() * 60000\<close>; for \<open>Math.random()\<close> in [0, 1) it is finite and lies in
  the closed interval [60000, 120000], and 120000 itself is the result at the double
  \<open>1 - 2^-53\<close>. The time given is the binary64 result of \<open>Date.now() + delay\<close>; for a
  \<open>Date.now()\<close> that is a non-negative integer below \<open>2^53 - 120000\<close> it lies between
  \<open>Date.now() + 60000\<close> and \<open>Date.now() + 120000\<close>, both included. The second module of
  \<open>part_000\<close> and \<open>part_001\<close> schedule nothing and throw an error with status 503, which
  their own \<open>isTemporaryProviderError\<close> accepts.

  When the answer has a body without \<open>instance\<close>: both modules of \<open>part_000\<close> throw the
  \<open>TypeError\<close> of reading \<open>state\<close>, with nothing sent and nothing scheduled; \<open>part_001\<close>
  throws the same 503 error as above. (\<open>worker.ts\<close> makes no readiness request.)
\<close>

theorem gateway_not_open:
  assumes "d \<noteq> InstanceState (Some ''open'')"
  shows "(d \<noteq> NoInstance \<longrightarrow>
            snd (processOrderMessage_A fmt job (Inr d) post random now) = Returned
            \<and> sends (fst (processOrderMessage_A fmt job (Inr d) post random now)) = []
            \<and> delays (fst (processOrderMessage_A fmt job (Inr d) post random now))
                = [js_add (Some now) (js_add (Some 60000) (js_mul (Some random) (Some 60000)))])
       \<and> (0 \<le> random \<and> random < 1 \<longrightarrow>
            (\<exists>delay. js_add (Some 60000) (js_mul (Some random) (Some 60000)) = Some delay
                \<and> 60000 \<le> delay \<and> delay \<le> 120000))
       \<and> (0 \<le> random \<and> random < 1 \<and> now = of_int n \<and> 0 \<le> n \<and> n + 120000 < 2 ^ 53 \<longrightarrow>
            (\<exists>t. js_add (Some now) (js_add (Some 60000) (js_mul (Some random) (Some 60000))) = Some t
                \<and> now + 60000 \<le> t \<and> t \<le> now + 120000))
       \<and> round_double (1 - 1 / 2 ^ 53) = Some (1 - 1 / 2 ^ 53)
       \<and> js_add (Some 60000) (js_mul (Some (1 - 1 / 2 ^ 53)) (Some 60000)) = Some 120000
       \<and> (d \<noteq> NoInstance \<longrightarrow>
            snd (processOrderMessage_B fmt job (Inr d) post)
              = Threw ((new_Error ''Evolution instance not ready'')\<lparr>err_status := Some 503\<rparr>)
            \<and> sends (fst (processOrderMessage_B fmt job (Inr d) post)) = []
            \<and> delays (fst (processOrderMessage_B fmt job (Inr d) post)) = [])
       \<and> (d = NoInstance \<longrightarrow>
            snd (processOrderMessage_A fmt job (Inr d) post random now) = Threw state_TypeError
            \<and> sends (fst (processOrderMessage_A fmt job (Inr d) post random now)) = []
            \<and> delays (fst (processOrderMessage_A fmt job (Inr d) post random now)) = []
            \<and> snd (processOrderMessage_B fmt job (Inr d) post) = Threw state_TypeError
            \<and> sends (fst (processOrderMessage_B fmt job (Inr d) post)) = []
            \<and> delays (fst (processOrderMessage_B fmt job (Inr d) post)) = [])
       \<and> snd (processOrderMessage_C fmt job (Inr d) post)
              = Threw ((new_Error ''Evolution instance not ready'')\<lparr>err_status := Some 503\<rparr>)
       \<and> sends (fst (processOrderMessage_C fmt job (Inr d) post)) = []
       \<and> delays (fst (processOrderMessage_C fmt job (Inr d) post)) = []
       \<and> isTemporaryProviderError_B ((new_Error ''Evolution instance not ready'')\<lparr>err_status := Some 503\<rparr>)
       \<and> isTemporaryProviderError_C ((new_Error ''Evolution instance not ready'')\<lparr>err_status := Some 503\<rparr>)"
proof -
  obtain s1 where s1: "startLog_AB job = Log s1" using startLog_AB_is_Log by blast
  obtain s2 where s2: "notReadyLog_AB job = Log s2" using notReadyLog_AB_is_Log by blast
  obtain s3 where c: "processOrderMessage_C fmt job (Inr d) post
         = ([Log s3, HttpGet (evolutionInstance job)],
            Threw ((new_Error ''Evolution instance not ready'')\<lparr>err_status := Some 503\<rparr>))"
    using processOrderMessage_C_not_ready [OF assms] by blast
  have a: "d \<noteq> NoInstance \<longrightarrow>
            snd (processOrderMessage_A fmt job (Inr d) post random now) = Returned
            \<and> sends (fst (processOrderMessage_A fmt job (Inr d) post random now)) = []
            \<and> delays (fst (processOrderMessage_A fmt job (Inr d) post random now))
                = [js_add (Some now) (js_add (Some 60000) (js_mul (Some random) (Some 60000)))]"
    using processOrderMessage_A_not_ready [OF assms, of fmt job post random now]
    by (simp add: s1 s2 sends_simps delays_simps)
  have b: "d \<noteq> NoInstance \<longrightarrow>
            snd (processOrderMessage_B fmt job (Inr d) post)
              = Threw ((new_Error ''Evolution instance not ready'')\<lparr>err_status := Some 503\<rparr>)
            \<and> sends (fst (processOrderMessage_B fmt job (Inr d) post)) = []
            \<and> delays (fst (processOrderMessage_B fmt job (Inr d) post)) = []"
    using processOrderMessage_B_not_ready [OF assms, of fmt job post]
    by (simp add: s1 s2 sends_simps delays_simps)
  have r: "0 \<le> random \<and> random < 1 \<longrightarrow>
            (\<exists>delay. js_add (Some 60000) (js_mul (Some random) (Some 60000)) = Some delay
                \<and> 60000 \<le> delay \<and> delay \<le> 120000)"
    using delay_bounds [of random] by blast
  have r': "0 \<le> random \<and> random < 1 \<and> now = of_int n \<and> 0 \<le> n \<and> n + 120000 < 2 ^ 53 \<longrightarrow>
            (\<exists>t. js_add (Some now) (js_add (Some 60000) (js_mul (Some random) (Some 60000))) = Some t
                \<and> now + 60000 \<le> t \<and> t \<le> now + 120000)"
  proof
    assume h: "0 \<le> random \<and> random < 1 \<and> now = of_int n \<and> 0 \<le> n \<and> n + 120000 < 2 ^ 53"
    then obtain delay where d: "js_add (Some 60000) (js_mul (Some random) (Some 60000)) = Some delay"
        "60000 \<le> delay" "delay \<le> 120000"
      using delay_bounds [of random] by blast
    obtain t where "js_add (Some (of_int n)) (Some delay) = Some t"
        "of_int n + 60000 \<le> t" "t \<le> of_int n + 120000"
      using timestamp_bounds [OF d(2) d(3), of n] h by blast
    then show "\<exists>t. js_add (Some now) (js_add (Some 60000) (js_mul (Some random) (Some 60000))) = Some t
                \<and> now + 60000 \<le> t \<and> t \<le> now + 120000"
      using h d(1) by simp
  qed
  have ni: "d = NoInstance \<longrightarrow>
            snd (processOrderMessage_A fmt job (Inr d) post random now) = Threw state_TypeError
            \<and> sends (fst (processOrderMessage_A fmt job (Inr d) post random now)) = []
            \<and> delays (fst (processOrderMessage_A fmt job (Inr d) post random now)) = []
            \<and> snd (processOrderMessage_B fmt job (Inr d) post) = Threw state_TypeError
            \<and> sends (fst (processOrderMessage_B fmt job (Inr d) post)) = []
            \<and> delays (fst (processOrderMessage_B fmt job (Inr d) post)) = []"
    by (simp add: processOrderMessage_AB_no_instance s1 sends_simps delays_simps)
  have cc: "snd (processOrderMessage_C fmt job (Inr d) post)
              = Threw ((new_Error ''Evolution instance not ready'')\<lparr>err_status := Some 503\<rparr>)
       \<and> sends (fst (processOrderMessage_C fmt job (Inr d) post)) = []
       \<and> delays (fst (processOrderMessage_C fmt job (Inr d) post)) = []"
    by (simp add: c sends_simps delays_simps)
  show ?thesis
    using a b r r' ni cc not_ready_error_temporary largest_random_is_double delay_reaches_120000
    by blast
qed

theorem gateway_not_open_witness:
  "InstanceState (Some ''connecting'') \<noteq> InstanceState (Some ''open'')
   \<and> InstanceState (Some ''connecting'') \<noteq> NoInstance
   \<and> (0::real) \<le> 1 / 2 \<and> (1::real) / 2 < 1
   \<and> (1000::real) = of_int 1000 \<and> (0::int) \<le> 1000 \<and> (1000::int) + 120000 < 2 ^ 53
   \<and> snd (processOrderMessage_A example_fmt example_job (Inr (InstanceState (Some ''connecting''))) None (1 / 2) 1000)
       = Returned
   \<and> sends (fst (processOrderMessage_A example_fmt example_job (Inr (InstanceState (Some ''connecting''))) None (1 / 2) 1000))
       = []
   \<and> delays (fst (processOrderMessage_A example_fmt example_job (Inr (InstanceState (Some ''connecting''))) None (1 / 2) 1000))
       = [Some 91000]
   \<and> js_add (Some 60000) (js_mul (Some (1 / 2)) (Some 60000)) = Some 90000
   \<and> js_add (Some 1000) (js_add (Some 60000) (js_mul (Some (1 / 2)) (Some 60000))) = Some 91000
   \<and> NoInstance \<noteq> InstanceState (Some ''open'')
   \<and> snd (processOrderMessage_A example_fmt example_job (Inr NoInstance) None (1 / 2) 1000)
       = Threw state_TypeError
   \<and> snd (processOrderMessage_C example_fmt example_job (Inr (InstanceState (Some ''connecting''))) None)
       = Threw ((new_Error ''Evolution instance not ready'')\<lparr>err_status := Some 503\<rparr>)"
proof -
  have h: "InstanceState (Some ''connecting'') \<noteq> InstanceState (Some ''open'')" by simp
  have h': "NoInstance \<noteq> InstanceState (Some ''open'')" by simp
  have m: "js_mul (Some (1 / 2)) (Some 60000) = Some 30000"
    using round_double_int [of 30000] by (simp add: js_mul_def)
  have a: "js_add (Some 60000) (Some 30000) = Some 90000"
    using round_double_int [of 90000] by (simp add: js_add_def)
  have t: "js_add (Some 1000) (Some 90000) = Some 91000"
    using round_double_int [of 91000] by (simp add: js_add_def)
  have p: "(1000::int) + 120000 < 2 ^ 53" by simp
  show ?thesis
    using gateway_not_open [OF h, of example_fmt example_job None "1 / 2" 1000 1000]
      gateway_not_open [OF h', of example_fmt example_job None "1 / 2" 1000 1000] p
    by (simp add: m a t)
qed

text \<open>
  C1 as the claim states it fails on the second module of \<open>part_000\<close>: with the state
  \<open>connecting\<close> the processor schedules no delayed run and throws a 503 error that the
  transient-error test accepts.
\<close>
theorem not_open_throws_B_counterexample:
  "snd (processOrderMessage_B example_fmt example_job (Inr (InstanceState (Some ''connecting''))) None)
     = Threw ((new_Error ''Evolution instance not ready'')\<lparr>err_status := Some 503\<rparr>)
   \<and> delays (fst (processOrderMessage_B example_fmt example_job (Inr (InstanceState (Some ''connecting''))) None))
     = []
   \<and> isTemporaryProviderError_B ((new_Error ''Evolution instance not ready'')\<lparr>err_status := Some 503\<rparr>)"
  by (simp add: processOrderMessage_B_def Let_def truthy_str_def delays_simps startLog_AB_def
      notReadyLog_AB_def isTemporaryProviderError_B_def new_Error_def)

text \<open>
  In the second module of \<open>part_000\<close> the error that \<open>sendMessage\<close> throws is a new error
  with a \<open>status\<close> and no \<open>response\<close>, so the \<open>err.response?.status === 404\<close> test of the
  processor's \<open>catch\<close> never holds and every rejected send is thrown.
\<close>

lemma response_status_sendMessage_B: "response_status (sendMessage_B error) = None"
  by (simp add: sendMessage_B_def response_status_def new_Error_def Let_def)

lemma processOrderMessage_W_send_failure:
  "processOrderMessage_W fmt job (Some error)
   = ([Log (''Processando pedido '' @ number_to_string (code (job_order job)) @ '' (''
            @ type_text (job_type job) @ '')''),
       HttpPost (evolutionInstance job) (customerPhone (job_order job))
         (formatOrderMessage_W fmt (job_order job) (job_type job))],
      if isTemporaryProviderError_W error then Threw error
      else Threw (new_Error (''Falha permanente ao enviar mensagem: '' @ message_text error)))"
  by (simp add: processOrderMessage_W_def Let_def sendMessage_W_def)

lemma processOrderMessage_A_send_failure:
  "processOrderMessage_A fmt job (Inr (InstanceState (Some ''open''))) (Some error) random now
   = (let pre2 = [startLog_AB job, HttpGet (evolutionInstance job),
                  Log (''Sending message for order '' @ number_to_string (code (job_order job))
                       @ '' to '' @ customerPhone (job_order job)),
                  HttpPost (evolutionInstance job) (customerPhone (job_order job))
                    (formatOrderMessage_AB fmt (job_order job) (job_type job))]
      in if isTemporaryProviderError_A (sendMessage_A error) then (pre2, Threw (sendMessage_A error))
         else (pre2 @ [Log (''Message failed for order '' @ number_to_string (code (job_order job))
                            @ '': '' @ message_text (sendMessage_A error)),
                       MoveToFailed (sendMessage_A error) ''message_send_failure''],
               Returned))"
  by (simp add: processOrderMessage_A_def Let_def truthy_str_def)

lemma processOrderMessage_B_send_failure:
  "processOrderMessage_B fmt job (Inr (InstanceState (Some ''open''))) (Some error)
   = ([startLog_AB job, HttpGet (evolutionInstance job),
       HttpPost (evolutionInstance job) (customerPhone (job_order job))
         (formatOrderMessage_AB fmt (job_order job) (job_type job))],
      Threw (sendMessage_B error))"
  by (simp add: processOrderMessage_B_def Let_def truthy_str_def response_status_sendMessage_B)

lemma processOrderMessage_C_send_failure:
  "processOrderMessage_C fmt job (Inr (InstanceState (Some ''open''))) (Some error)
   = ([Log (''Processing order '' @ number_to_string (code (job_order job)) @ '' (''
            @ type_text (job_type job) @ '')''),
       HttpGet (evolutionInstance job),
       HttpPost (evolutionInstance job) (customerPhone (job_order job))
         (formatOrderMessage_C fmt (job_order job) (job_type job))],
      Threw (sendMessage_C error))"
  by (simp add: processOrderMessage_C_def Let_def)

text \<open>
  C3, as the code has it. The gateway is ready and the send is rejected with \<open>error\<close>. When
  \<open>isTemporaryProviderError\<close> holds of the error \<open>sendMessage\<close> throws, every revision throws
  that error again. When it does not: \<open>worker.ts\<close> throws a new error whose message starts
  with \<open>Falha permanente ao enviar mensagem\<close>; the first module of \<open>part_000\<close> logs, moves the
  job to the failed set and returns; the second module of \<open>part_000\<close> (stated here for a
  response status other than 404) and \<open>part_001\<close> throw the same error as in the transient
  case.
\<close>
theorem send_failure_outcome:
  "(isTemporaryProviderError_W (sendMessage_W error) \<longrightarrow>
      snd (processOrderMessage_W fmt job (Some error)) = Threw (sendMessage_W error))
   \<and> (isTemporaryProviderError_A (sendMessage_A error) \<longrightarrow>
      snd (processOrderMessage_A fmt job (Inr (InstanceState (Some ''open''))) (Some error) random now)
        = Threw (sendMessage_A error))
   \<and> (isTemporaryProviderError_B (sendMessage_B error) \<longrightarrow>
      snd (processOrderMessage_B fmt job (Inr (InstanceState (Some ''open''))) (Some error))
        = Threw (sendMessage_B error))
   \<and> (isTemporaryProviderError_C (sendMessage_C error) \<longrightarrow>
      snd (processOrderMessage_C fmt job (Inr (InstanceState (Some ''open''))) (Some error))
        = Threw (sendMessage_C error))
   \<and> (\<not> isTemporaryProviderError_W (sendMessage_W error) \<longrightarrow>
      snd (processOrderMessage_W fmt job (Some error))
        = Threw (new_Error (''Falha permanente ao enviar mensagem: '' @ message_text error)))
   \<and> (\<not> isTemporaryProviderError_A (sendMessage_A error) \<longrightarrow>
      snd (processOrderMessage_A fmt job (Inr (InstanceState (Some ''open''))) (Some error) random now)
        = Returned
      \<and> last (fst (processOrderMessage_A fmt job (Inr (InstanceState (Some ''open''))) (Some error) random now))
        = MoveToFailed (sendMessage_A error) ''message_send_failure'')
   \<and> (\<not> isTemporaryProviderError_B (sendMessage_B error) \<and> response_status error \<noteq> Some 404 \<longrightarrow>
      snd (processOrderMessage_B fmt job (Inr (InstanceState (Some ''open''))) (Some error))
        = Threw (sendMessage_B error))
   \<and> (\<not> isTemporaryProviderError_C (sendMessage_C error) \<longrightarrow>
      snd (processOrderMessage_C fmt job (Inr (InstanceState (Some ''open''))) (Some error))
        = Threw (sendMessage_C error))"
  by (simp add: processOrderMessage_W_send_failure processOrderMessage_A_send_failure
      processOrderMessage_B_send_failure processOrderMessage_C_send_failure Let_def
      sendMessage_W_def)


theorem send_failure_outcome_witness:
  "isTemporaryProviderError_W (sendMessage_W (http_error 503))
   \<and> snd (processOrderMessage_W example_fmt example_job (Some (http_error 503))) = Threw (http_error 503)
   \<and> isTemporaryProviderError_A (sendMessage_A timeout_error)
   \<and> snd (processOrderMessage_A example_fmt example_job (Inr (InstanceState (Some ''open''))) (Some timeout_error) 0 0)
       = Threw timeout_error
   \<and> isTemporaryProviderError_B (sendMessage_B (http_error 503))
   \<and> snd (processOrderMessage_B example_fmt example_job (Inr (InstanceState (Some ''open''))) (Some (http_error 503)))
       = Threw (sendMessage_B (http_error 503))
   \<and> isTemporaryProviderError_C (sendMessage_C (http_error 503))
   \<and> snd (processOrderMessage_C example_fmt example_job (Inr (InstanceState (Some ''open''))) (Some (http_error 503)))
       = Threw (sendMessage_C (http_error 503))
   \<and> \<not> isTemporaryProviderError_W (sendMessage_W (http_error 400))
   \<and> snd (processOrderMessage_W example_fmt example_job (Some (http_error 400)))
       = Threw (new_Error (''Falha permanente ao enviar mensagem: '' @ message_text (http_error 400)))
   \<and> \<not> isTemporaryProviderError_A (sendMessage_A (http_error 400))
   \<and> snd (processOrderMessage_A example_fmt example_job (Inr (InstanceState (Some ''open''))) (Some (http_error 400)) 0 0)
       = Returned
   \<and> \<not> isTemporaryProviderError_B (sendMessage_B (http_error 400))
   \<and> response_status (http_error 400) \<noteq> Some 404
   \<and> snd (processOrderMessage_B example_fmt example_job (Inr (InstanceState (Some ''open''))) (Some (http_error 400)))
       = Threw (sendMessage_B (http_error 400))
   \<and> \<not> isTemporaryProviderError_C (sendMessage_C (http_error 400))
   \<and> snd (processOrderMessage_C example_fmt example_job (Inr (InstanceState (Some ''open''))) (Some (http_error 400)))
       = Threw (sendMessage_C (http_error 400))"
proof -
  have t: "isTemporaryProviderError_W (sendMessage_W (http_error 503))"
    "isTemporaryProviderError_A (sendMessage_A timeout_error)"
    "isTemporaryProviderError_B (sendMessage_B (http_error 503))"
    "isTemporaryProviderError_C (sendMessage_C (http_error 503))"
    by code_simp+
  have n: "\<not> isTemporaryProviderError_W (sendMessage_W (http_error 400))"
    "\<not> isTemporaryProviderError_A (sendMessage_A (http_error 400))"
    "\<not> isTemporaryProviderError_B (sendMessage_B (http_error 400))"
    "\<not> isTemporaryProviderError_C (sendMessage_C (http_error 400))"
    "response_status (http_error 400) \<noteq> Some 404"
    by code_simp+
  have s: "sendMessage_W (http_error 503) = http_error 503" "sendMessage_A timeout_error = timeout_error"
    by (simp_all add: sendMessage_W_def sendMessage_A_def timeout_error_def)
  show ?thesis
    using send_failure_outcome [of "http_error 503" example_fmt example_job 0 0]
      send_failure_outcome [of timeout_error example_fmt example_job 0 0]
      send_failure_outcome [of "http_error 400" example_fmt example_job 0 0] t n s
    by simp
qed

text \<open>
  C3 as the claim states it fails on the second module of \<open>part_000\<close>: a send rejected
  with status 400 is not a temporary error, and the processor throws it exactly as it
  throws one rejected with status 503, with the same effects.
\<close>
theorem terminal_rethrown_B_counterexample:
  "\<not> isTemporaryProviderError_B (sendMessage_B (http_error 400))
   \<and> processOrderMessage_B example_fmt example_job (Inr (InstanceState (Some ''open''))) (Some (http_error 400))
     = ([startLog_AB example_job, HttpGet ''shop1'',
         HttpPost ''shop1'' ''5511999990000'' (formatOrderMessage_AB example_fmt example_order ORDER_CREATED)],
        Threw (sendMessage_B (http_error 400)))
   \<and> processOrderMessage_B example_fmt example_job (Inr (InstanceState (Some ''open''))) (Some (http_error 503))
     = ([startLog_AB example_job, HttpGet ''shop1'',
         HttpPost ''shop1'' ''5511999990000'' (formatOrderMessage_AB example_fmt example_order ORDER_CREATED)],
        Threw (sendMessage_B (http_error 503)))"
  by code_simp

lemma processOrderMessage_B_instance_not_found:
  assumes "response_status error = Some 404"
  shows "processOrderMessage_B fmt job (Inl error) post
         = ([startLog_AB job, HttpGet (evolutionInstance job),
             Log (''Evolution instance '' @ evolutionInstance job @ '' not found, delaying job (order ''
                  @ number_to_string (code (job_order job)) @ '').'')],
            Returned)"
  using assms by (simp add: processOrderMessage_B_def Let_def)

lemma processOrderMessage_C_instance_not_found:
  assumes "response_status error = Some 404"
  shows "processOrderMessage_C fmt job (Inl error) post
         = ([Log (''Processing order '' @ number_to_string (code (job_order job)) @ '' (''
                  @ type_text (job_type job) @ '')''),
             HttpGet (evolutionInstance job)],
            Threw ((new_Error ''Evolution instance not found'')\<lparr>err_status := Some 404\<rparr>))"
  using assms by (simp add: processOrderMessage_C_def Let_def)

lemma processOrderMessage_A_instance_not_found:
  assumes "response_status error = Some 404"
  shows "\<exists>e. processOrderMessage_A fmt job (Inl error) post random now
              = ([startLog_AB job, HttpGet (evolutionInstance job)], Threw e)
             \<and> err_status e = Some 404"
  using assms
  by (auto simp: processOrderMessage_A_def Let_def response_status_def split: option.splits)

lemma err_status_sendMessage_C: "err_status (sendMessage_C error) = response_status error"
  by (simp add: sendMessage_C_def Let_def)

text \<open>
  C4, as the code has it. The gateway answers 404. On the readiness request, the second
  module of \<open>part_000\<close> logs and returns, with no send and nothing scheduled; \<open>part_001\<close>
  throws a new error with status 404, without sending; the first module of \<open>part_000\<close>
  throws an error with status 404, without sending. On the send, \<open>part_001\<close> throws the
  error of \<open>sendMessage\<close>, which carries status 404.
\<close>
theorem instance_not_found:
  assumes "response_status error = Some 404"
  shows "snd (processOrderMessage_B fmt job (Inl error) post) = Returned
       \<and> sends (fst (processOrderMessage_B fmt job (Inl error) post)) = []
       \<and> delays (fst (processOrderMessage_B fmt job (Inl error) post)) = []
       \<and> last (fst (processOrderMessage_B fmt job (Inl error) post))
           = Log (''Evolution instance '' @ evolutionInstance job @ '' not found, delaying job (order ''
                  @ number_to_string (code (job_order job)) @ '').'')
       \<and> snd (processOrderMessage_C fmt job (Inl error) post)
           = Threw ((new_Error ''Evolution instance not found'')\<lparr>err_status := Some 404\<rparr>)
       \<and> sends (fst (processOrderMessage_C fmt job (Inl error) post)) = []
       \<and> snd (processOrderMessage_C fmt job (Inr (InstanceState (Some ''open''))) (Some error))
           = Threw (sendMessage_C error)
       \<and> err_status (sendMessage_C error) = Some 404
       \<and> (\<exists>e. snd (processOrderMessage_A fmt job (Inl error) post random now) = Threw e
               \<and> err_status e = Some 404)
       \<and> sends (fst (processOrderMessage_A fmt job (Inl error) post random now)) = []"
proof -
  obtain s1 where s1: "startLog_AB job = Log s1" using startLog_AB_is_Log by blast
  obtain e where e: "processOrderMessage_A fmt job (Inl error) post random now
              = ([startLog_AB job, HttpGet (evolutionInstance job)], Threw e)" "err_status e = Some 404"
    using processOrderMessage_A_instance_not_found [OF assms] by blast
  show ?thesis
    using assms e(2)
    by (simp add: processOrderMessage_B_instance_not_found [OF assms]
        processOrderMessage_C_instance_not_found [OF assms] processOrderMessage_C_send_failure
        err_status_sendMessage_C e(1) s1 sends_simps delays_simps)
qed

theorem instance_not_found_witness:
  "response_status (http_error 404) = Some 404
   \<and> snd (processOrderMessage_B example_fmt example_job (Inl (http_error 404)) None) = Returned
   \<and> sends (fst (processOrderMessage_B example_fmt example_job (Inl (http_error 404)) None)) = []
   \<and> snd (processOrderMessage_C example_fmt example_job (Inl (http_error 404)) None)
       = Threw ((new_Error ''Evolution instance not found'')\<lparr>err_status := Some 404\<rparr>)"
proof -
  have h: "response_status (http_error 404) = Some 404"
    by (simp add: response_status_def http_error_def)
  show ?thesis
    using instance_not_found [OF h, of example_fmt example_job None 0 0] h by simp
qed

text \<open>
  C4 as the claim states it fails on \<open>part_001\<close>: a 404 on the readiness request and a 404 on
  the send both end the run with a thrown error.
\<close>
theorem not_found_thrown_C_counterexample:
  "response_status (http_error 404) = Some 404
   \<and> processOrderMessage_C example_fmt example_job (Inl (http_error 404)) None
     = ([Log ''Processing order 42 (ORDER_CREATED)'', HttpGet ''shop1''],
        Threw ((new_Error ''Evolution instance not found'')\<lparr>err_status := Some 404\<rparr>))
   \<and> snd (processOrderMessage_C example_fmt example_job (Inr (InstanceState (Some ''open''))) (Some (http_error 404)))
     = Threw ((new_Error ''Failed to send message'')\<lparr>err_status := Some 404\<rparr>)"
  by code_simp

end
